theory Spec2Isabelle
  imports Main
begin

section \<open>Python strings and the standard library's \<open>textwrap.shorten\<close>\<close>

text \<open>
  \<open>Department.__init__\<close> and \<open>Employee.__init__\<close> store
  \<open>textwrap.shorten(name, 100, placeholder="")\<close>. The function belongs to
  the Python standard library (CPython 3.11, \<open>Lib/textwrap.py\<close>), not to the
  repository; it is transcribed here so that the stored name can be computed.
  A Python \<open>str\<close> is modelled as a \<open>string\<close> whose characters are the code
  points below 256; the character classes below are Python's on that range.
\<close>

definition isspace :: "char \<Rightarrow> bool" where
  \<comment> \<open>\<open>str.isspace\<close> on one character: what \<open>strip()\<close> and \<open>split()\<close> remove.\<close>
  "isspace c = (c \<in> {CHR 0x09, CHR 0x0A, CHR 0x0B, CHR 0x0C, CHR 0x0D, CHR 0x1C, CHR 0x1D,
                       CHR 0x1E, CHR 0x1F, CHR 0x20, CHR 0x85, CHR 0xA0})"

definition textwrap_whitespace :: "char \<Rightarrow> bool" where
  \<comment> \<open>\<open>_whitespace = '\t\n\x0b\x0c\r '\<close>\<close>
  "textwrap_whitespace c = (c \<in> {CHR 0x09, CHR 0x0A, CHR 0x0B, CHR 0x0C, CHR 0x0D, CHR 0x20})"

definition word_char :: "char \<Rightarrow> bool" where
  \<comment> \<open>the regular expression class \<open>\w\<close>\<close>
  "word_char c = (let n = (of_char c :: nat) in
     (48 \<le> n \<and> n \<le> 57) \<or> (65 \<le> n \<and> n \<le> 90) \<or> n = 95 \<or> (97 \<le> n \<and> n \<le> 122) \<or>
     n \<in> {170, 178, 179, 181, 185, 186, 188, 189, 190} \<or>
     (192 \<le> n \<and> n \<le> 214) \<or> (216 \<le> n \<and> n \<le> 246) \<or> 248 \<le> n)"

definition letter :: "char \<Rightarrow> bool" where
  \<comment> \<open>\<open>letter = r'[^\d\W]'\<close>\<close>
  "letter c = (word_char c \<and> \<not> (48 \<le> (of_char c :: nat) \<and> (of_char c :: nat) \<le> 57))"

definition word_punct :: "char \<Rightarrow> bool" where
  \<comment> \<open>\<open>word_punct = r'[\w!"\'&.,?]'\<close>\<close>
  "word_punct c = (word_char c \<or>
     c \<in> {CHR ''!'', CHR 0x22, CHR 0x27, CHR ''&'', CHR ''.'', CHR '','', CHR ''?''})"

definition lstrip :: "string \<Rightarrow> string" where
  "lstrip s = dropWhile isspace s"

definition rstrip :: "string \<Rightarrow> string" where
  "rstrip s = rev (dropWhile isspace (rev s))"

definition strip :: "string \<Rightarrow> string" where
  "strip s = rstrip (lstrip s)"

fun split_acc :: "string \<Rightarrow> string \<Rightarrow> string list" where
  \<comment> \<open>\<open>str.split()\<close>: the maximal runs of characters that are not whitespace;
      the first argument is the run being read, reversed.\<close>
  "split_acc cur [] = (if cur = [] then [] else [rev cur])"
| "split_acc cur (c # cs) =
     (if isspace c then (if cur = [] then split_acc [] cs else rev cur # split_acc [] cs)
      else split_acc (c # cur) cs)"

definition split_str :: "string \<Rightarrow> string list" where
  "split_str s = split_acc [] s"

fun join :: "string \<Rightarrow> string list \<Rightarrow> string" where
  \<comment> \<open>\<open>sep.join(words)\<close>\<close>
  "join sep [] = []"
| "join sep [w] = w"
| "join sep (w # ws) = w @ sep @ join sep ws"

definition collapse :: "string \<Rightarrow> string" where
  \<comment> \<open>\<open>' '.join(text.strip().split())\<close>, the argument \<open>shorten\<close> passes to \<open>fill\<close>\<close>
  "collapse text = join '' '' (split_str (strip text))"

fun expandtabs :: "nat \<Rightarrow> string \<Rightarrow> string" where
  \<comment> \<open>\<open>text.expandtabs(8)\<close>; the first argument is the column reached\<close>
  "expandtabs col [] = []"
| "expandtabs col (c # cs) =
     (if c = CHR 0x09 then replicate (8 - col mod 8) CHR '' '' @ expandtabs (col + (8 - col mod 8)) cs
      else c # expandtabs (if c = CHR 0x0A \<or> c = CHR 0x0D then 0 else col + 1) cs)"

definition munge_whitespace :: "string \<Rightarrow> string" where
  \<comment> \<open>\<open>TextWrapper._munge_whitespace\<close> with \<open>expand_tabs\<close> and \<open>replace_whitespace\<close>\<close>
  "munge_whitespace text =
     map (\<lambda>c. if textwrap_whitespace c then CHR '' '' else c) (expandtabs 0 text)"

subsection \<open>\<open>TextWrapper._split\<close>: the chunks of \<open>wordsep_re\<close>\<close>

text \<open>
  \<open>wordsep_re.split(text)\<close> cuts the text into consecutive matches of the pattern
  (a match starts at every position, so nothing lies between two matches). A match is a
  run of whitespace, an em-dash between words, or a word that ends after a hyphen inside
  a hyphenated word, in front of whitespace or the end, or in front of an em-dash. The functions
  below read the text from a position; \<open>behind\<close> is the text to the left of the
  position, reversed, for the look-behind assertions.
\<close>

definition emdash_ahead :: "string \<Rightarrow> bool" where
  \<comment> \<open>\<open>-{2,}\w\<close> matches here\<close>
  "emdash_ahead s =
     (let m = length (takeWhile (\<lambda>c. c = CHR ''-'') s)
      in 2 \<le> m \<and> (case drop m s of [] \<Rightarrow> False | c # _ \<Rightarrow> word_char c))"

fun hyphenated_ahead :: "string \<Rightarrow> bool" where
  \<comment> \<open>the look-ahead \<open>letter -? letter\<close>\<close>
  "hyphenated_ahead (a # b # cs) =
     (letter a \<and> (if b = CHR ''-'' then (case cs of [] \<Rightarrow> False | c # _ \<Rightarrow> letter c)
                   else letter b))"
| "hyphenated_ahead _ = False"

fun hyphen_behind :: "string \<Rightarrow> bool" where
  \<comment> \<open>the look-behinds \<open>letter{2}-\<close> and \<open>letter-letter-\<close>, on the reversed
      text that ends with the hyphen\<close>
  "hyphen_behind (h # x # y # zs) =
     (letter x \<and> (letter y \<or> (y = CHR ''-'' \<and> (case zs of [] \<Rightarrow> False | z # _ \<Rightarrow> letter z))))"
| "hyphen_behind _ = False"

fun word_len :: "string \<Rightarrow> string \<Rightarrow> nat" where
  \<comment> \<open>how many more characters the lazy \<open>[^whitespace]+?\<close> takes until one of the
      three endings of a word matches\<close>
  "word_len behind [] = 0"
| "word_len behind (c # cs) =
     (if c = CHR ''-'' \<and> hyphen_behind (c # behind) \<and> hyphenated_ahead cs then 1
      else if textwrap_whitespace c then 0
      else if behind \<noteq> [] \<and> word_punct (hd behind) \<and> emdash_ahead (c # cs) then 0
      else 1 + word_len (c # behind) cs)"

definition chunk_len :: "string \<Rightarrow> string \<Rightarrow> nat" where
  \<comment> \<open>the length of the match of \<open>wordsep_re\<close> that starts here\<close>
  "chunk_len behind rest =
     (case rest of [] \<Rightarrow> 0
      | c # cs \<Rightarrow>
         if textwrap_whitespace c then length (takeWhile textwrap_whitespace rest)
         else if c = CHR ''-'' \<and> behind \<noteq> [] \<and> word_punct (hd behind) \<and> emdash_ahead rest
           then length (takeWhile (\<lambda>c. c = CHR ''-'') rest)
         else 1 + word_len (c # behind) cs)"

lemma chunk_len_pos: "rest \<noteq> [] \<Longrightarrow> 0 < chunk_len behind rest"
  by (cases rest) (auto simp: chunk_len_def emdash_ahead_def Let_def)

function split_from :: "string \<Rightarrow> string \<Rightarrow> string list" where
  "split_from behind rest =
     (if rest = [] then []
      else take (chunk_len behind rest) rest #
           split_from (rev (take (chunk_len behind rest) rest) @ behind)
                      (drop (chunk_len behind rest) rest))"
  by pat_completeness auto
termination
proof (relation "measure (\<lambda>(behind, rest). length rest)")
  show "wf (measure (\<lambda>(behind, rest). length rest))" by simp
next
  fix behind rest :: string
  assume "rest \<noteq> []"
  then show "((rev (take (chunk_len behind rest) rest) @ behind, drop (chunk_len behind rest) rest),
              (behind, rest)) \<in> measure (\<lambda>(behind, rest). length rest)"
    using chunk_len_pos [of rest behind] by simp
qed

declare split_from.simps [simp del]

definition split_chunks :: "string \<Rightarrow> string list" where
  \<comment> \<open>\<open>TextWrapper._split_chunks\<close>: munge the whitespace, then split\<close>
  "split_chunks text = split_from [] (munge_whitespace text)"

subsection \<open>\<open>TextWrapper._wrap_chunks\<close> for one line of width 100\<close>

text \<open>
  \<open>shorten\<close> builds \<open>TextWrapper(width=100, max_lines=1, placeholder="")\<close>;
  the other attributes keep their defaults (no indent, \<open>drop_whitespace\<close>,
  \<open>break_long_words\<close>, \<open>break_on_hyphens\<close>). With these values the two
  \<open>ValueError\<close> guards at the head of \<open>_wrap_chunks\<close> (width not positive,
  placeholder wider than the line) do not fire. The source pops the chunks from a
  reversed list; here the next chunk is the head of the list. \<open>cur_len\<close> is
  the total length of \<open>cur_line\<close> throughout, so it is computed from the line.
\<close>

definition width :: nat where
  "width = 100"

fun fill_line :: "string list \<Rightarrow> string list \<Rightarrow> string list \<times> string list" where
  \<comment> \<open>the inner \<open>while chunks\<close>: take chunks while they fit on the line\<close>
  "fill_line cur_line [] = (cur_line, [])"
| "fill_line cur_line (c # chunks) =
     (if length (concat cur_line) + length c \<le> width then fill_line (cur_line @ [c]) chunks
      else (cur_line, c # chunks))"

definition rfind_hyphen :: "string \<Rightarrow> nat \<Rightarrow> int" where
  \<comment> \<open>\<open>chunk.rfind('-', 0, stop)\<close>\<close>
  "rfind_hyphen chunk stop =
     (case filter (\<lambda>i. chunk ! i = CHR ''-'') (rev [0 ..< min stop (length chunk)]) of
        [] \<Rightarrow> - 1
      | i # _ \<Rightarrow> int i)"

definition break_at :: "string \<Rightarrow> nat \<Rightarrow> nat" where
  \<comment> \<open>\<open>end\<close> in \<open>_handle_long_word\<close>: the space left, or one past the last
      hyphen that fits when the chunk is longer and a character other than a hyphen
      precedes it\<close>
  "break_at chunk space_left =
     (let hyphen = rfind_hyphen chunk space_left
      in if length chunk > space_left \<and> hyphen > 0 \<and>
            (\<exists>c \<in> set (take (nat hyphen) chunk). c \<noteq> CHR ''-'')
         then nat (hyphen + 1) else space_left)"

definition handle_long_word :: "string list \<Rightarrow> string list \<Rightarrow> string list \<times> string list" where
  \<comment> \<open>\<open>_handle_long_word(chunks, cur_line, cur_len, width)\<close>, called with
      chunks that are not empty\<close>
  "handle_long_word chunks cur_line =
     (cur_line @ [take (break_at (hd chunks) (width - length (concat cur_line))) (hd chunks)],
      drop (break_at (hd chunks) (width - length (concat cur_line))) (hd chunks) # tl chunks)"

definition build_line :: "string list \<Rightarrow> string list \<times> string list" where
  \<comment> \<open>one pass of the outer loop up to the decision what to do with the line:
      fill it, break a word that fits on no line, drop trailing whitespace\<close>
  "build_line chunks =
     (case fill_line [] chunks of (cur_line, chunks1) \<Rightarrow>
      case (if chunks1 \<noteq> [] \<and> length (hd chunks1) > width
            then handle_long_word chunks1 cur_line else (cur_line, chunks1)) of
        (cur_line2, chunks2) \<Rightarrow>
          (if cur_line2 \<noteq> [] \<and> strip (last cur_line2) = [] then butlast cur_line2
           else cur_line2, chunks2))"

fun truncate_line :: "string list \<Rightarrow> string option" where
  \<comment> \<open>the \<open>while cur_line\<close> loop that appends the (empty) placeholder; the
      argument is the line reversed, \<open>None\<close> when the loop runs out\<close>
  "truncate_line [] = None"
| "truncate_line (c # cs) =
     (if strip c \<noteq> [] \<and> length (concat (c # cs)) \<le> width then Some (concat (rev (c # cs)))
      else truncate_line cs)"

definition start_line :: "string list \<Rightarrow> string list \<Rightarrow> string list" where
  \<comment> \<open>a line after the first does not start with a whitespace chunk\<close>
  "start_line lines chunks =
     (if strip (hd chunks) = [] \<and> lines \<noteq> [] then tl chunks else chunks)"

text \<open>The loop ends: every pass takes a chunk or a piece of one.\<close>

definition chunks_size :: "string list \<Rightarrow> nat" where
  "chunks_size chunks = length (concat chunks) + length chunks"

lemma fill_line_suffix:
  "fill_line cur_line chunks = (cl, rest) \<Longrightarrow> \<exists>taken. chunks = taken @ rest \<and> cl = cur_line @ taken"
proof (induction chunks arbitrary: cur_line)
  case Nil
  then show ?case by simp
next
  case (Cons c chunks)
  show ?case
  proof (cases "length (concat cur_line) + length c \<le> width")
    case True
    with Cons.prems have "fill_line (cur_line @ [c]) chunks = (cl, rest)" by simp
    from Cons.IH [OF this] obtain taken where "chunks = taken @ rest" "cl = (cur_line @ [c]) @ taken"
      by blast
    then have "c # chunks = (c # taken) @ rest \<and> cl = cur_line @ (c # taken)" by simp
    then show ?thesis by blast
  next
    case False
    with Cons.prems show ?thesis by auto
  qed
qed

lemma fill_line_stuck:
  "fill_line cur_line chunks = (cl, rest) \<Longrightarrow> rest \<noteq> [] \<Longrightarrow>
     width < length (concat cl) + length (hd rest)"
  by (induction chunks arbitrary: cur_line) (auto split: if_splits)

lemma chunks_size_append: "chunks_size (xs @ ys) = chunks_size xs + chunks_size ys"
  by (simp add: chunks_size_def)

lemma chunks_size_pos: "chunks \<noteq> [] \<Longrightarrow> 0 < chunks_size chunks"
  by (simp add: chunks_size_def)

lemma break_at_pos: "0 < space_left \<Longrightarrow> 0 < break_at chunk space_left"
  by (simp add: break_at_def Let_def)

lemma handle_long_word_size:
  "handle_long_word chunks cur_line = (cl, rest) \<Longrightarrow> chunks \<noteq> [] \<Longrightarrow>
     chunks_size rest \<le> chunks_size chunks"
  by (cases chunks) (auto simp: handle_long_word_def chunks_size_def)

lemma handle_long_word_first:
  assumes "handle_long_word chunks [] = (cl, rest)" and "chunks \<noteq> []"
    and "width < length (hd chunks)"
  shows "chunks_size rest < chunks_size chunks"
proof -
  obtain c cs where c: "chunks = c # cs" using assms(2) by (cases chunks) auto
  have "0 < break_at c width" by (rule break_at_pos) (simp add: width_def)
  moreover have "0 < length c" using assms(3) c by auto
  moreover have "rest = drop (break_at c width) c # cs"
    using assms(1) c by (simp add: handle_long_word_def)
  ultimately show ?thesis using c by (simp add: chunks_size_def)
qed

lemma build_line_size_le:
  assumes "build_line chunks = (cl, rest)"
  shows "chunks_size rest \<le> chunks_size chunks"
proof -
  obtain cl1 r1 where f: "fill_line [] chunks = (cl1, r1)" by (cases "fill_line [] chunks")
  from fill_line_suffix [OF f] obtain taken where t: "chunks = taken @ r1" by blast
  show ?thesis
  proof (cases "r1 \<noteq> [] \<and> length (hd r1) > width")
    case True
    obtain cl2 r2 where h: "handle_long_word r1 cl1 = (cl2, r2)" by (cases "handle_long_word r1 cl1")
    with assms f True have "rest = r2" by (auto simp: build_line_def)
    with handle_long_word_size [OF h] True t show ?thesis by (simp add: chunks_size_append)
  next
    case False
    with assms f have "rest = r1" by (auto simp: build_line_def)
    with t show ?thesis by (simp add: chunks_size_append)
  qed
qed

lemma build_line_size_less:
  assumes "build_line chunks = (cl, rest)" and "chunks \<noteq> []"
  shows "chunks_size rest < chunks_size chunks"
proof -
  obtain cl1 r1 where f: "fill_line [] chunks = (cl1, r1)" by (cases "fill_line [] chunks")
  from fill_line_suffix [OF f] obtain taken where t: "chunks = taken @ r1" "cl1 = taken" by auto
  show ?thesis
  proof (cases "taken = []")
    case True
    with t assms have r1: "r1 = chunks" "r1 \<noteq> []" "cl1 = []" by auto
    from fill_line_stuck [OF f r1(2)] r1 have long: "width < length (hd chunks)" by simp
    obtain cl2 r2 where h: "handle_long_word chunks [] = (cl2, r2)" by (cases "handle_long_word chunks []")
    with assms f r1 long have "rest = r2" by (auto simp: build_line_def)
    with handle_long_word_first [OF h assms(2) long] show ?thesis by simp
  next
    case False
    then have "chunks_size r1 < chunks_size chunks"
      using t chunks_size_pos [of taken] by (simp add: chunks_size_append)
    moreover have "chunks_size rest \<le> chunks_size r1"
    proof (cases "r1 \<noteq> [] \<and> length (hd r1) > width")
      case True
      obtain cl2 r2 where h: "handle_long_word r1 cl1 = (cl2, r2)" by (cases "handle_long_word r1 cl1")
      with assms f True have "rest = r2" by (auto simp: build_line_def)
      with handle_long_word_size [OF h] True show ?thesis by simp
    next
      case False
      with assms f have "rest = r1" by (auto simp: build_line_def)
      then show ?thesis by simp
    qed
    ultimately show ?thesis by simp
  qed
qed

lemma start_line_size:
  assumes "chunks \<noteq> []" and "build_line (start_line lines chunks) = (cl, rest)"
  shows "chunks_size rest < chunks_size chunks"
proof (cases "start_line lines chunks = chunks")
  case True
  with assms build_line_size_less show ?thesis by simp
next
  case False
  then have s: "start_line lines chunks = tl chunks" by (auto simp: start_line_def split: if_splits)
  from assms(1) have "chunks_size (tl chunks) < chunks_size chunks"
    by (cases chunks) (auto simp: chunks_size_def)
  with build_line_size_le [of "tl chunks" cl rest] assms(2) s show ?thesis by simp
qed

function wrap_chunks_loop :: "string list \<Rightarrow> string list \<Rightarrow> string list" where
  "wrap_chunks_loop lines chunks =
     (if chunks = [] then lines
      else case build_line (start_line lines chunks) of
        (cur_line, rest) \<Rightarrow>
          if cur_line \<noteq> [] then
            if (rest = [] \<or> (length rest = 1 \<and> strip (hd rest) = [])) \<and>
               length (concat cur_line) \<le> width
            then wrap_chunks_loop (lines @ [concat cur_line]) rest
            else (case truncate_line (rev cur_line) of
                    Some line \<Rightarrow> lines @ [line]
                  | None \<Rightarrow>
                      if lines \<noteq> [] \<and> length (rstrip (last lines)) \<le> width
                      then butlast lines @ [rstrip (last lines)]
                      else lines @ [[]])
          else wrap_chunks_loop lines rest)"
  by pat_completeness auto
termination
  by (relation "measure (\<lambda>(lines, chunks). chunks_size chunks)")
     (auto dest: start_line_size [OF _ sym])

declare wrap_chunks_loop.simps [simp del]

definition wrap_chunks :: "string list \<Rightarrow> string list" where
  "wrap_chunks chunks = wrap_chunks_loop [] chunks"

definition fill :: "string \<Rightarrow> string" where
  \<comment> \<open>\<open>TextWrapper.fill\<close>: the lines of \<open>wrap\<close>, joined by newlines\<close>
  "fill text = join [CHR 0x0A] (wrap_chunks (split_chunks text))"

definition shorten :: "string \<Rightarrow> string" where
  \<comment> \<open>\<open>textwrap.shorten(text, 100, placeholder="")\<close>\<close>
  "shorten text = fill (collapse text)"

section \<open>The program's environment\<close>

text \<open>
  \<open>main.py\<close> works on four pieces of global state: the ODBC connection with its
  cursor (\<open>conn\<close>, \<open>cursor\<close>), the module \<open>random\<close>, the seeded \<open>Faker\<close>
  instance \<open>fake\<close>, and the log that \<open>logging.warning\<close> writes. They are passed
  explicitly as a \<open>world\<close>. A Python exception is a result \<open>Inl e\<close>; the world
  reached when it was raised is returned with it, since a caller that catches the
  exception goes on from there.
\<close>

datatype sql =
    DROP_TABLE_employee
  | DROP_TABLE_department
  | CREATE_TABLE_department
  | CREATE_TABLE_employee
  | INSERT_department string
  | UPDATE_department string int
  | INSERT_employee "int option" "int option" string int
  | UPDATE_employee "int option" "int option" string int int
  | SELECT_IDENTITY

datatype db_call = Execute sql | Fetchone | Commit

datatype error =
    DatabaseError nat db_call
  | TypeError
  | ValueError
  | IndexError
  | UniquenessException

text \<open>
  The database server behind the connection: the two tables of the schema in
  \<open>create_table\<close> (absent, or their rows in insertion order), the next value of each
  \<open>IDENTITY\<close> column, the session's \<open>@@IDENTITY\<close>, the rows of the last
  \<open>SELECT\<close> not fetched yet, the calls received so far, and \<open>faults\<close>: the
  \<open>n\<close>-th call received fails for a reason outside the program (a lost connection,
  a lock) when \<open>faults n\<close> holds. The program never rolls back, so pending and committed
  changes are not told apart; \<open>commit\<close> is a call like the others.
\<close>

record database =
  department_tbl :: "(int \<times> string) list option"
  employee_tbl :: "(int \<times> int \<times> int option \<times> string \<times> int) list option"
  department_ident :: int
  employee_ident :: int
  last_identity :: "int option"
  result_rows :: "int option list"
  calls :: "db_call list"
  faults :: "nat \<Rightarrow> bool"

definition department_ids :: "database \<Rightarrow> int set" where
  "department_ids d = (case department_tbl d of None \<Rightarrow> {} | Some rows \<Rightarrow> fst ` set rows)"

definition employee_ids :: "database \<Rightarrow> int set" where
  "employee_ids d = (case employee_tbl d of None \<Rightarrow> {} | Some rows \<Rightarrow> fst ` set rows)"

definition employee_row_ok :: "database \<Rightarrow> int option \<Rightarrow> int option \<Rightarrow> string \<Rightarrow> int \<Rightarrow> bool" where
  \<comment> \<open>the constraints of \<open>CREATE TABLE employee\<close>: \<open>department_id\<close> is not null and
      names a department, \<open>chief_id\<close> is null or names an employee, the name fits
      \<open>NVARCHAR(100)\<close>, the salary fits \<open>INTEGER\<close>\<close>
  "employee_row_ok d department_id chief_id name salary =
     ((case department_id of None \<Rightarrow> False | Some i \<Rightarrow> i \<in> department_ids d) \<and>
      (case chief_id of None \<Rightarrow> True | Some c \<Rightarrow> c \<in> employee_ids d) \<and>
      length name \<le> 100 \<and> - 2147483648 \<le> salary \<and> salary \<le> 2147483647)"

fun run_sql :: "sql \<Rightarrow> database \<Rightarrow> database option" where
  \<comment> \<open>what a statement does to the database; \<open>None\<close> when the server rejects it\<close>
  "run_sql DROP_TABLE_employee d =
     (if employee_tbl d = None then None else Some (d\<lparr>employee_tbl := None\<rparr>))"
| "run_sql DROP_TABLE_department d =
     (if department_tbl d = None \<or> employee_tbl d \<noteq> None then None
      else Some (d\<lparr>department_tbl := None\<rparr>))"
| "run_sql CREATE_TABLE_department d =
     (if department_tbl d \<noteq> None then None
      else Some (d\<lparr>department_tbl := Some [], department_ident := 1\<rparr>))"
| "run_sql CREATE_TABLE_employee d =
     (if employee_tbl d \<noteq> None \<or> department_tbl d = None then None
      else Some (d\<lparr>employee_tbl := Some [], employee_ident := 1\<rparr>))"
| "run_sql (INSERT_department name) d =
     (case department_tbl d of
        None \<Rightarrow> None
      | Some rows \<Rightarrow>
          if length name > 100 then None
          else Some (d\<lparr>department_tbl := Some (rows @ [(department_ident d, name)]),
                       department_ident := department_ident d + 1,
                       last_identity := Some (department_ident d)\<rparr>))"
| "run_sql (UPDATE_department name i) d =
     (case department_tbl d of
        None \<Rightarrow> None
      | Some rows \<Rightarrow>
          if length name > 100 then None
          else Some (d\<lparr>department_tbl :=
                 Some (map (\<lambda>(j, n). if j = i then (j, name) else (j, n)) rows)\<rparr>))"
| "run_sql (INSERT_employee department_id chief_id name salary) d =
     (case employee_tbl d of
        None \<Rightarrow> None
      | Some rows \<Rightarrow>
          if \<not> employee_row_ok d department_id chief_id name salary then None
          else Some (d\<lparr>employee_tbl :=
                         Some (rows @ [(employee_ident d, the department_id, chief_id, name, salary)]),
                       employee_ident := employee_ident d + 1,
                       last_identity := Some (employee_ident d)\<rparr>))"
| "run_sql (UPDATE_employee department_id chief_id name salary i) d =
     (case employee_tbl d of
        None \<Rightarrow> None
      | Some rows \<Rightarrow>
          if \<not> employee_row_ok d department_id chief_id name salary then None
          else Some (d\<lparr>employee_tbl :=
                 Some (map (\<lambda>(j, r). if j = i then (j, the department_id, chief_id, name, salary)
                                     else (j, r)) rows)\<rparr>))"
| "run_sql SELECT_IDENTITY d = Some (d\<lparr>result_rows := [last_identity d]\<rparr>)"

definition db_execute :: "sql \<Rightarrow> database \<Rightarrow> (error + unit) \<times> database" where
  "db_execute st d =
     (let n = length (calls d); d1 = d\<lparr>calls := calls d @ [Execute st]\<rparr>
      in if faults d n then (Inl (DatabaseError n (Execute st)), d1)
         else case run_sql st d1 of
                None \<Rightarrow> (Inl (DatabaseError n (Execute st)), d1)
              | Some d2 \<Rightarrow> (Inr (), d2))"

definition db_fetchone :: "database \<Rightarrow> (error + int option option) \<times> database" where
  \<comment> \<open>the next row of the result (its only column), or \<open>None\<close> when there is none\<close>
  "db_fetchone d =
     (let n = length (calls d); d1 = d\<lparr>calls := calls d @ [Fetchone]\<rparr>
      in if faults d n then (Inl (DatabaseError n Fetchone), d1)
         else case result_rows d1 of
                [] \<Rightarrow> (Inr None, d1)
              | r # rs \<Rightarrow> (Inr (Some r), d1\<lparr>result_rows := rs\<rparr>))"

definition db_commit :: "database \<Rightarrow> (error + unit) \<times> database" where
  "db_commit d =
     (let n = length (calls d); d1 = d\<lparr>calls := calls d @ [Commit]\<rparr>
      in if faults d n then (Inl (DatabaseError n Commit), d1) else (Inr (), d1))"

datatype fake_call = Unique_catch_phrase | Unique_name

text \<open>
  \<open>Faker\<close> is a deterministic generator: once seeded, what a call returns depends on
  the calls made before it and on nothing else. \<open>provider\<close> is that dependency, the
  value of the last call of a history, \<open>None\<close> when \<open>fake.unique\<close> gives up with
  \<open>UniquenessException\<close>. The library itself is a parameter: it maps the seed to the
  provider.
\<close>

record faker =
  provider :: "fake_call list \<Rightarrow> string option"
  history :: "fake_call list"

definition Faker_seed :: "(int \<Rightarrow> fake_call list \<Rightarrow> string option) \<Rightarrow> int \<Rightarrow> faker" where
  \<comment> \<open>\<open>Faker.seed(73); fake = Faker("en_US")\<close> is \<open>Faker_seed library 73\<close>\<close>
  "Faker_seed library seed = \<lparr>provider = library seed, history = []\<rparr>"

text \<open>
  The module \<open>random\<close> is not seeded by the program (\<open>Faker.seed\<close> seeds Faker's own
  generator), so its draws are an input: \<open>random_src n\<close> is the raw value of the
  \<open>n\<close>-th draw, and \<open>random.randint(a, b)\<close> maps it into the range from \<open>a\<close> to
  \<open>b\<close>, both ends included.
\<close>

record world =
  db :: database
  random_src :: "nat \<Rightarrow> nat"
  random_pos :: nat
  fake :: faker
  warnings :: "error list"

definition cursor_execute :: "sql \<Rightarrow> world \<Rightarrow> (error + unit) \<times> world" where
  "cursor_execute st w = (case db_execute st (db w) of (r, d) \<Rightarrow> (r, w\<lparr>db := d\<rparr>))"

definition fetchone_0 :: "world \<Rightarrow> (error + int option) \<times> world" where
  \<comment> \<open>\<open>cursor.fetchone()[0]\<close>: subscripting \<open>None\<close> raises \<open>TypeError\<close>\<close>
  "fetchone_0 w =
     (case db_fetchone (db w) of
        (Inl e, d) \<Rightarrow> (Inl e, w\<lparr>db := d\<rparr>)
      | (Inr None, d) \<Rightarrow> (Inl TypeError, w\<lparr>db := d\<rparr>)
      | (Inr (Some v), d) \<Rightarrow> (Inr v, w\<lparr>db := d\<rparr>))"

definition conn_commit :: "world \<Rightarrow> (error + unit) \<times> world" where
  "conn_commit w = (case db_commit (db w) of (r, d) \<Rightarrow> (r, w\<lparr>db := d\<rparr>))"

definition logging_warning :: "error \<Rightarrow> world \<Rightarrow> world" where
  "logging_warning e w = w\<lparr>warnings := warnings w @ [e]\<rparr>"

definition randint :: "int \<Rightarrow> int \<Rightarrow> world \<Rightarrow> (error + int) \<times> world" where
  \<comment> \<open>\<open>random.randint(a, b)\<close>; an empty range raises \<open>ValueError\<close>\<close>
  "randint a b w =
     (if b < a then (Inl ValueError, w)
      else (Inr (a + int (random_src w (random_pos w) mod nat (b - a + 1))),
            w\<lparr>random_pos := random_pos w + 1\<rparr>))"

definition fake_unique :: "fake_call \<Rightarrow> world \<Rightarrow> (error + string) \<times> world" where
  \<comment> \<open>\<open>fake.unique.catch_phrase()\<close> and \<open>fake.unique.name()\<close>\<close>
  "fake_unique c w =
     (let h = history (fake w) @ [c]; w1 = w\<lparr>fake := (fake w)\<lparr>history := h\<rparr>\<rparr>
      in case provider (fake w) h of
           None \<Rightarrow> (Inl UniquenessException, w1)
         | Some s \<Rightarrow> (Inr s, w1))"

definition getitem :: "'a list \<Rightarrow> int \<Rightarrow> error + 'a" where
  \<comment> \<open>\<open>xs[i]\<close>: a negative index counts from the end, an index out of range raises\<close>
  "getitem xs i =
     (if 0 \<le> i \<and> i < int (length xs) then Inr (xs ! nat i)
      else if i < 0 \<and> - int (length xs) \<le> i then Inr (xs ! nat (int (length xs) + i))
      else Inl IndexError)"

section \<open>The entities\<close>

text \<open>
  An object is modelled by its value. A method that assigns to \<open>self\<close> returns the
  object with the world, also when it raises. An \<open>Employee\<close> holds its department and
  its chief by reference; the generator never changes an object once its constructor
  has returned, so the value read through the reference is the value stored here.
\<close>

datatype Department = Department (name_d: string) (id_d: "int option")

datatype Employee =
  Employee (department: Department) (chief: "Employee option") (name_e: string)
           (salary: int) (id_e: "int option")

definition Department_create_table :: "world \<Rightarrow> (error + unit) \<times> world" where
  "Department_create_table w =
     (case cursor_execute CREATE_TABLE_department w of
        (Inl e, w1) \<Rightarrow> (Inl e, w1)
      | (Inr _, w1) \<Rightarrow> conn_commit w1)"

definition Department_drop_table :: "world \<Rightarrow> (error + unit) \<times> world" where
  "Department_drop_table w =
     (case cursor_execute DROP_TABLE_department w of
        (Inl e, w1) \<Rightarrow> (Inl e, w1)
      | (Inr _, w1) \<Rightarrow> conn_commit w1)"

definition Department_save :: "Department \<Rightarrow> world \<Rightarrow> (error + unit) \<times> Department \<times> world" where
  "Department_save self w =
     (case id_d self of
        None \<Rightarrow>
          (case cursor_execute (INSERT_department (name_d self)) w of
             (Inl e, w1) \<Rightarrow> (Inl e, self, w1)
           | (Inr _, w1) \<Rightarrow>
          (case cursor_execute SELECT_IDENTITY w1 of
             (Inl e, w2) \<Rightarrow> (Inl e, self, w2)
           | (Inr _, w2) \<Rightarrow>
          (case fetchone_0 w2 of
             (Inl e, w3) \<Rightarrow> (Inl e, self, w3)
           | (Inr v, w3) \<Rightarrow>
          (case conn_commit w3 of (r, w4) \<Rightarrow> (r, Department (name_d self) v, w4)))))
      | Some i \<Rightarrow>
          (case cursor_execute (UPDATE_department (name_d self) i) w of
             (Inl e, w1) \<Rightarrow> (Inl e, self, w1)
           | (Inr _, w1) \<Rightarrow> (case conn_commit w1 of (r, w2) \<Rightarrow> (r, self, w2))))"

definition Department_init :: "string \<Rightarrow> world \<Rightarrow> (error + Department) \<times> world" where
  \<comment> \<open>\<open>Department(name)\<close>: the object exists for the caller only if \<open>save\<close> returns\<close>
  "Department_init name w =
     (case Department_save (Department (shorten name) None) w of
        (Inl e, self, w1) \<Rightarrow> (Inl e, w1)
      | (Inr _, self, w1) \<Rightarrow> (Inr self, w1))"

definition Employee_create_table :: "world \<Rightarrow> (error + unit) \<times> world" where
  "Employee_create_table w =
     (case cursor_execute CREATE_TABLE_employee w of
        (Inl e, w1) \<Rightarrow> (Inl e, w1)
      | (Inr _, w1) \<Rightarrow> conn_commit w1)"

definition Employee_drop_table :: "world \<Rightarrow> (error + unit) \<times> world" where
  "Employee_drop_table w =
     (case cursor_execute DROP_TABLE_employee w of
        (Inl e, w1) \<Rightarrow> (Inl e, w1)
      | (Inr _, w1) \<Rightarrow> conn_commit w1)"

definition chief_id :: "Employee \<Rightarrow> int option" where
  \<comment> \<open>\<open>self.chief.id if self.chief is not None else None\<close>\<close>
  "chief_id self = (case chief self of None \<Rightarrow> None | Some c \<Rightarrow> id_e c)"

definition Employee_save :: "Employee \<Rightarrow> world \<Rightarrow> (error + unit) \<times> Employee \<times> world" where
  "Employee_save self w =
     (case id_e self of
        None \<Rightarrow>
          (case cursor_execute (INSERT_employee (id_d (department self)) (chief_id self)
                                  (name_e self) (salary self)) w of
             (Inl e, w1) \<Rightarrow> (Inl e, self, w1)
           | (Inr _, w1) \<Rightarrow>
          (case cursor_execute SELECT_IDENTITY w1 of
             (Inl e, w2) \<Rightarrow> (Inl e, self, w2)
           | (Inr _, w2) \<Rightarrow>
          (case fetchone_0 w2 of
             (Inl e, w3) \<Rightarrow> (Inl e, self, w3)
           | (Inr v, w3) \<Rightarrow>
          (case conn_commit w3 of
             (r, w4) \<Rightarrow> (r, Employee (department self) (chief self) (name_e self)
                                      (salary self) v, w4)))))
      | Some i \<Rightarrow>
          (case cursor_execute (UPDATE_employee (id_d (department self)) (chief_id self)
                                  (name_e self) (salary self) i) w of
             (Inl e, w1) \<Rightarrow> (Inl e, self, w1)
           | (Inr _, w1) \<Rightarrow> (case conn_commit w1 of (r, w2) \<Rightarrow> (r, self, w2))))"

definition Employee_init ::
  "Department \<Rightarrow> Employee option \<Rightarrow> string \<Rightarrow> int \<Rightarrow> world \<Rightarrow> (error + Employee) \<times> world" where
  "Employee_init dept chf name sal w =
     (case Employee_save (Employee dept chf (shorten name) sal None) w of
        (Inl e, self, w1) \<Rightarrow> (Inl e, w1)
      | (Inr _, self, w1) \<Rightarrow> (Inr self, w1))"

section \<open>Schema reset and the generators\<close>

definition create_tables :: "world \<Rightarrow> (error + unit) \<times> world" where
  "create_tables w =
     (let w1 = (case Employee_drop_table w of
                  (Inl e, w') \<Rightarrow> logging_warning e w'
                | (Inr _, w') \<Rightarrow> w');
          w2 = (case Department_drop_table w1 of
                  (Inl e, w') \<Rightarrow> logging_warning e w'
                | (Inr _, w') \<Rightarrow> w')
      in case Department_create_table w2 of
           (Inl e, w3) \<Rightarrow> (Inl e, w3)
         | (Inr _, w3) \<Rightarrow> Employee_create_table w3)"

fun departments_loop :: "nat \<Rightarrow> Department list \<Rightarrow> world \<Rightarrow> (error + Department list) \<times> world" where
  \<comment> \<open>the \<open>for\<close> loop of \<open>get_random_departments\<close> with the iterations left\<close>
  "departments_loop 0 departments w = (Inr departments, w)"
| "departments_loop (Suc n) departments w =
     (case fake_unique Unique_catch_phrase w of
        (Inl e, w1) \<Rightarrow> (Inl e, w1)
      | (Inr phrase, w1) \<Rightarrow>
     (case Department_init phrase w1 of
        (Inl e, w2) \<Rightarrow> (Inl e, w2)
      | (Inr dept, w2) \<Rightarrow> departments_loop n (departments @ [dept]) w2))"

definition get_random_departments :: "int \<Rightarrow> world \<Rightarrow> (error + Department list) \<times> world" where
  \<comment> \<open>\<open>range(amount)\<close> is empty for an amount below one\<close>
  "get_random_departments amount w = departments_loop (nat amount) [] w"

definition choose_chief_pos :: "Employee list \<Rightarrow> world \<Rightarrow> (error + int) \<times> world" where
  \<comment> \<open>lines 197 to 200: the index of the chief, \<open>-1\<close> for none\<close>
  "choose_chief_pos employees w =
     (if length employees > 0 then randint (- 1) (int (length employees) - 1) w
      else (Inr (- 1), w))"

definition chief_at :: "Employee list \<Rightarrow> int \<Rightarrow> error + Employee option" where
  \<comment> \<open>\<open>employees[chief_pos] if chief_pos > -1 else None\<close>\<close>
  "chief_at employees chief_pos =
     (if chief_pos > - 1
      then (case getitem employees chief_pos of Inl e \<Rightarrow> Inl e | Inr c \<Rightarrow> Inr (Some c))
      else Inr None)"

definition new_employee ::
  "Department list \<Rightarrow> Employee list \<Rightarrow> world \<Rightarrow> (error + Employee) \<times> world" where
  \<comment> \<open>lines 196 to 203, the body of the loop up to the constructor call; the
      arguments of the constructor are evaluated from left to right\<close>
  "new_employee departments employees w =
     (case randint 0 (int (length departments) - 1) w of
        (Inl e, w1) \<Rightarrow> (Inl e, w1)
      | (Inr department_pos, w1) \<Rightarrow>
     (case choose_chief_pos employees w1 of
        (Inl e, w2) \<Rightarrow> (Inl e, w2)
      | (Inr chief_pos, w2) \<Rightarrow>
     (case getitem departments department_pos of
        Inl e \<Rightarrow> (Inl e, w2)
      | Inr dept \<Rightarrow>
     (case chief_at employees chief_pos of
        Inl e \<Rightarrow> (Inl e, w2)
      | Inr chf \<Rightarrow>
     (case fake_unique Unique_name w2 of
        (Inl e, w3) \<Rightarrow> (Inl e, w3)
      | (Inr nm, w3) \<Rightarrow>
     (case randint 20000 100001 w3 of
        (Inl e, w4) \<Rightarrow> (Inl e, w4)
      | (Inr sal, w4) \<Rightarrow> Employee_init dept chf nm sal w4))))))"

fun employees_loop ::
  "nat \<Rightarrow> Department list \<Rightarrow> Employee list \<Rightarrow> world \<Rightarrow> (error + Employee list) \<times> world" where
  "employees_loop 0 departments employees w = (Inr employees, w)"
| "employees_loop (Suc n) departments employees w =
     (case new_employee departments employees w of
        (Inl e, w1) \<Rightarrow> (Inl e, w1)
      | (Inr employee, w1) \<Rightarrow> employees_loop n departments (employees @ [employee]) w1)"

definition get_random_employees ::
  "int \<Rightarrow> Department list \<Rightarrow> world \<Rightarrow> (error + Employee list) \<times> world" where
  "get_random_employees amount departments w =
     (if length departments < 1 then (Inr [], w)
      else employees_loop (nat amount) departments [] w)"

definition create_fake_data ::
  "int \<Rightarrow> int \<Rightarrow> world \<Rightarrow> (error + Department list \<times> Employee list) \<times> world" where
  "create_fake_data departments_amount employees_amount w =
     (case get_random_departments departments_amount w of
        (Inl e, w1) \<Rightarrow> (Inl e, w1)
      | (Inr departments, w1) \<Rightarrow>
     (case get_random_employees employees_amount departments w1 of
        (Inl e, w2) \<Rightarrow> (Inl e, w2)
      | (Inr employees, w2) \<Rightarrow> (Inr (departments, employees), w2)))"

definition initial_world ::
  "(int \<Rightarrow> fake_call list \<Rightarrow> string option) \<Rightarrow> database \<Rightarrow> (nat \<Rightarrow> nat) \<Rightarrow> world" where
  \<comment> \<open>the globals after lines 12 to 18: Faker seeded with 73, the connection open\<close>
  "initial_world library d src =
     \<lparr>db = d, random_src = src, random_pos = 0, fake = Faker_seed library 73, warnings = []\<rparr>"

definition main ::
  "(int \<Rightarrow> fake_call list \<Rightarrow> string option) \<Rightarrow> database \<Rightarrow> (nat \<Rightarrow> nat) \<Rightarrow>
     (error + Department list \<times> Employee list) \<times> world" where
  \<comment> \<open>lines 221 and 222, the module's top level\<close>
  "main library d src =
     (case create_tables (initial_world library d src) of
        (Inl e, w1) \<Rightarrow> (Inl e, w1)
      | (Inr _, w1) \<Rightarrow>
     (case randint 3 10 w1 of
        (Inl e, w2) \<Rightarrow> (Inl e, w2)
      | (Inr departments_amount, w2) \<Rightarrow>
     (case randint 10 50 w2 of
        (Inl e, w3) \<Rightarrow> (Inl e, w3)
      | (Inr employees_amount, w3) \<Rightarrow>
          create_fake_data departments_amount employees_amount w3)))"

section \<open>A concrete environment\<close>

text \<open>
  A small library, an empty database server without faults and a source of draws, on
  which the program can be run.
\<close>

definition example_library :: "int \<Rightarrow> fake_call list \<Rightarrow> string option" where
  "example_library seed h =
     Some ((if last h = Unique_name then ''Name '' else ''Phrase '') @
           replicate (length h) CHR ''x'')"

definition example_db :: database where
  "example_db =
     \<lparr>department_tbl = None, employee_tbl = None, department_ident = 1, employee_ident = 1,
      last_identity = None, result_rows = [], calls = [], faults = (\<lambda>n. False)\<rparr>"

definition example_world :: world where
  "example_world = initial_world example_library example_db (\<lambda>n. n)"

text \<open>
  The example world once \<open>create_tables\<close> has run on it, the same world with a
  source of draws that always gives 80001, and a world that holds one department.
\<close>

definition ready_world :: world where
  "ready_world = snd (create_tables example_world)"

definition top_draws_world :: world where
  "top_draws_world = ready_world\<lparr>random_src := (\<lambda>n. 80001)\<rparr>"

definition sales_world :: world where
  "sales_world =
     ready_world\<lparr>db := (db ready_world)\<lparr>department_tbl := Some [(1, ''Sales'')],
                                            department_ident := 2\<rparr>,
                  random_src := (\<lambda>n. 80001)\<rparr>"

definition sales :: Department where
  "sales = Department ''Sales'' (Some 1)"

definition staff :: "Employee list" where
  "staff = [Employee sales None ''Ann'' 20000 (Some 1),
            Employee sales (Some (Employee sales None ''Ann'' 20000 (Some 1))) ''Bob'' 30000 (Some 2)]"

definition staff_world :: world where
  "staff_world =
     ready_world\<lparr>db := (db ready_world)\<lparr>
                    department_tbl := Some [(1, ''Sales'')], department_ident := 2,
                    employee_tbl := Some [(1, 1, None, ''Ann'', 20000),
                                          (2, 1, Some 1, ''Bob'', 30000)],
                    employee_ident := 3\<rparr>,
                  random_src := Suc\<rparr>"

definition sales_saved :: "(error + unit) \<times> Department \<times> world" where
  "sales_saved = Department_save (Department ''Sales'' None) ready_world"

definition cyd_saved :: "(error + unit) \<times> Employee \<times> world" where
  "cyd_saved = Employee_save (Employee sales (Some (staff ! 0)) ''Cyd'' 40000 None) staff_world"

definition staff_run :: "(error + Employee list) \<times> world" where
  "staff_run = get_random_employees 2 [sales] (staff_world\<lparr>random_src := (\<lambda>n. n)\<rparr>)"

definition retail_saved :: "(error + unit) \<times> Department \<times> world" where
  "retail_saved = Department_save (Department ''Retail'' None) (snd (snd sales_saved))"

definition sales_resaved :: "(error + unit) \<times> Department \<times> world" where
  "sales_resaved =
     Department_save (Department ''Shop'' (id_d (fst (snd sales_saved)))) (snd (snd retail_saved))"

definition dan_saved :: "(error + unit) \<times> Employee \<times> world" where
  "dan_saved = Employee_save (Employee sales None ''Dan'' 21000 None) (snd (snd cyd_saved))"

definition cyd_resaved :: "(error + unit) \<times> Employee \<times> world" where
  "cyd_resaved =
     Employee_save (Employee sales (Some (staff ! 1)) ''Cyd'' 45000 (id_e (fst (snd cyd_saved))))
       (snd (snd dan_saved))"

definition small_run :: "(error + Department list \<times> Employee list) \<times> world" where
  "small_run = create_fake_data 1 1 ready_world"

section \<open>What a call that returns has done\<close>

lemma run_sql_log: "run_sql st d = Some d2 \<Longrightarrow> calls d2 = calls d \<and> faults d2 = faults d"
  by (cases st) (auto split: if_splits option.splits)

lemma cursor_execute_Inr:
  assumes "cursor_execute st w = (Inr u, w')"
  shows "\<exists>d2. run_sql st ((db w)\<lparr>calls := calls (db w) @ [Execute st]\<rparr>) = Some d2 \<and>
              w' = w\<lparr>db := d2\<rparr>"
  using assms
  by (auto simp: cursor_execute_def db_execute_def Let_def split: if_splits option.splits)

lemma cursor_execute_Inl:
  assumes "cursor_execute st w = (Inl e, w')"
  shows "e = DatabaseError (length (calls (db w))) (Execute st) \<and>
         w' = w\<lparr>db := (db w)\<lparr>calls := calls (db w) @ [Execute st]\<rparr>\<rparr>"
  using assms
  by (auto simp: cursor_execute_def db_execute_def Let_def split: if_splits option.splits)

lemma fetchone_0_Inr:
  assumes "fetchone_0 w = (Inr v, w')"
  shows "\<exists>rs. result_rows (db w) = v # rs \<and>
          w' = w\<lparr>db := (db w)\<lparr>calls := calls (db w) @ [Fetchone], result_rows := rs\<rparr>\<rparr>"
  using assms
  by (auto simp: fetchone_0_def db_fetchone_def Let_def split: if_splits list.splits)

lemma conn_commit_Inr:
  assumes "conn_commit w = (Inr u, w')"
  shows "w' = w\<lparr>db := (db w)\<lparr>calls := calls (db w) @ [Commit]\<rparr>\<rparr>"
  using assms
  by (auto simp: conn_commit_def db_commit_def Let_def split: if_splits)

lemma Department_save_insert:
  assumes "id_d self = None" and "Department_save self w = (Inr u, self', w')"
  shows "\<exists>rows. department_tbl (db w) = Some rows \<and>
           self' = Department (name_d self) (Some (department_ident (db w))) \<and>
           w' = w\<lparr>db := (db w)\<lparr>
                  department_tbl := Some (rows @ [(department_ident (db w), name_d self)]),
                  department_ident := department_ident (db w) + 1,
                  last_identity := Some (department_ident (db w)),
                  result_rows := [],
                  calls := calls (db w) @ [Execute (INSERT_department (name_d self)),
                             Execute SELECT_IDENTITY, Fetchone, Commit]\<rparr>\<rparr>"
proof -
  from assms obtain w1 w2 w3 v where
    1: "cursor_execute (INSERT_department (name_d self)) w = (Inr (), w1)" and
    2: "cursor_execute SELECT_IDENTITY w1 = (Inr (), w2)" and
    3: "fetchone_0 w2 = (Inr v, w3)" and
    4: "conn_commit w3 = (Inr u, w')" and
    5: "self' = Department (name_d self) v"
    by (auto simp: Department_save_def split: prod.splits sum.splits)
  from cursor_execute_Inr [OF 1] obtain rows where
    r: "department_tbl (db w) = Some rows" and
    w1: "w1 = w\<lparr>db := (db w)\<lparr>calls := calls (db w) @ [Execute (INSERT_department (name_d self))],
                   department_tbl := Some (rows @ [(department_ident (db w), name_d self)]),
                   department_ident := department_ident (db w) + 1,
                   last_identity := Some (department_ident (db w))\<rparr>\<rparr>"
    by (auto split: option.splits if_splits)
  from cursor_execute_Inr [OF 2] w1 have
    w2: "w2 = w1\<lparr>db := (db w1)\<lparr>calls := calls (db w1) @ [Execute SELECT_IDENTITY],
                   result_rows := [Some (department_ident (db w))]\<rparr>\<rparr>"
    by auto
  from fetchone_0_Inr [OF 3] w2 have
    v: "v = Some (department_ident (db w))" and
    w3: "w3 = w2\<lparr>db := (db w2)\<lparr>calls := calls (db w2) @ [Fetchone], result_rows := []\<rparr>\<rparr>"
    by auto
  from conn_commit_Inr [OF 4] have w4: "w' = w3\<lparr>db := (db w3)\<lparr>calls := calls (db w3) @ [Commit]\<rparr>\<rparr>" .
  show ?thesis using r 5 v w1 w2 w3 w4 by simp
qed

lemma Department_save_update:
  assumes "id_d self = Some i" and "Department_save self w = (Inr u, self', w')"
  shows "\<exists>rows. department_tbl (db w) = Some rows \<and> self' = self \<and>
           w' = w\<lparr>db := (db w)\<lparr>
                  department_tbl :=
                    Some (map (\<lambda>(j, n). if j = i then (j, name_d self) else (j, n)) rows),
                  calls := calls (db w) @ [Execute (UPDATE_department (name_d self) i), Commit]\<rparr>\<rparr>"
proof -
  from assms obtain w1 where
    1: "cursor_execute (UPDATE_department (name_d self) i) w = (Inr (), w1)" and
    2: "conn_commit w1 = (Inr u, w')" and
    3: "self' = self"
    by (auto simp: Department_save_def split: prod.splits sum.splits)
  from cursor_execute_Inr [OF 1] obtain rows where
    r: "department_tbl (db w) = Some rows" and
    w1: "w1 = w\<lparr>db := (db w)\<lparr>calls := calls (db w) @ [Execute (UPDATE_department (name_d self) i)],
                   department_tbl :=
                     Some (map (\<lambda>(j, n). if j = i then (j, name_d self) else (j, n)) rows)\<rparr>\<rparr>"
    by (auto split: option.splits if_splits)
  from conn_commit_Inr [OF 2] have "w' = w1\<lparr>db := (db w1)\<lparr>calls := calls (db w1) @ [Commit]\<rparr>\<rparr>" .
  then show ?thesis using r 3 w1 by simp
qed

lemma Employee_save_insert:
  assumes "id_e self = None" and "Employee_save self w = (Inr u, self', w')"
  shows "\<exists>rows dept_id.
           employee_tbl (db w) = Some rows \<and> id_d (department self) = Some dept_id \<and>
           employee_row_ok (db w) (Some dept_id) (chief_id self) (name_e self) (salary self) \<and>
           self' = Employee (department self) (chief self) (name_e self) (salary self)
                     (Some (employee_ident (db w))) \<and>
           w' = w\<lparr>db := (db w)\<lparr>
                  employee_tbl := Some (rows @ [(employee_ident (db w), dept_id, chief_id self,
                                                  name_e self, salary self)]),
                  employee_ident := employee_ident (db w) + 1,
                  last_identity := Some (employee_ident (db w)),
                  result_rows := [],
                  calls := calls (db w) @
                    [Execute (INSERT_employee (Some dept_id) (chief_id self) (name_e self) (salary self)),
                     Execute SELECT_IDENTITY, Fetchone, Commit]\<rparr>\<rparr>"
proof -
  let ?st = "INSERT_employee (id_d (department self)) (chief_id self) (name_e self) (salary self)"
  from assms obtain w1 w2 w3 v where
    1: "cursor_execute ?st w = (Inr (), w1)" and
    2: "cursor_execute SELECT_IDENTITY w1 = (Inr (), w2)" and
    3: "fetchone_0 w2 = (Inr v, w3)" and
    4: "conn_commit w3 = (Inr u, w')" and
    5: "self' = Employee (department self) (chief self) (name_e self) (salary self) v"
    by (auto simp: Employee_save_def split: prod.splits sum.splits)
  from cursor_execute_Inr [OF 1] obtain rows where
    r: "employee_tbl (db w) = Some rows" and
    ok: "employee_row_ok ((db w)\<lparr>calls := calls (db w) @ [Execute ?st]\<rparr>)
           (id_d (department self)) (chief_id self) (name_e self) (salary self)" and
    w1: "w1 = w\<lparr>db := (db w)\<lparr>calls := calls (db w) @ [Execute ?st],
                   employee_tbl := Some (rows @ [(employee_ident (db w), the (id_d (department self)),
                                                   chief_id self, name_e self, salary self)]),
                   employee_ident := employee_ident (db w) + 1,
                   last_identity := Some (employee_ident (db w))\<rparr>\<rparr>"
    by (auto split: option.splits if_splits)
  from ok obtain dept_id where d: "id_d (department self) = Some dept_id"
    by (auto simp: employee_row_ok_def split: option.splits)
  from ok d have ok': "employee_row_ok (db w) (Some dept_id) (chief_id self) (name_e self) (salary self)"
    by (auto simp: employee_row_ok_def department_ids_def employee_ids_def split: option.splits)
  from cursor_execute_Inr [OF 2] w1 have
    w2: "w2 = w1\<lparr>db := (db w1)\<lparr>calls := calls (db w1) @ [Execute SELECT_IDENTITY],
                   result_rows := [Some (employee_ident (db w))]\<rparr>\<rparr>"
    by auto
  from fetchone_0_Inr [OF 3] w2 have
    v: "v = Some (employee_ident (db w))" and
    w3: "w3 = w2\<lparr>db := (db w2)\<lparr>calls := calls (db w2) @ [Fetchone], result_rows := []\<rparr>\<rparr>"
    by auto
  from conn_commit_Inr [OF 4] have w4: "w' = w3\<lparr>db := (db w3)\<lparr>calls := calls (db w3) @ [Commit]\<rparr>\<rparr>" .
  show ?thesis using r d ok' 5 v w1 w2 w3 w4 by simp
qed

lemma Employee_save_update:
  assumes "id_e self = Some i" and "Employee_save self w = (Inr u, self', w')"
  shows "\<exists>rows dept_id.
           employee_tbl (db w) = Some rows \<and> id_d (department self) = Some dept_id \<and> self' = self \<and>
           w' = w\<lparr>db := (db w)\<lparr>
                  employee_tbl :=
                    Some (map (\<lambda>(j, r). if j = i then (j, dept_id, chief_id self, name_e self, salary self)
                                         else (j, r)) rows),
                  calls := calls (db w) @
                    [Execute (UPDATE_employee (Some dept_id) (chief_id self) (name_e self) (salary self) i),
                     Commit]\<rparr>\<rparr>"
proof -
  let ?st = "UPDATE_employee (id_d (department self)) (chief_id self) (name_e self) (salary self) i"
  from assms obtain w1 where
    1: "cursor_execute ?st w = (Inr (), w1)" and
    2: "conn_commit w1 = (Inr u, w')" and
    3: "self' = self"
    by (auto simp: Employee_save_def split: prod.splits sum.splits)
  from cursor_execute_Inr [OF 1] obtain rows where
    r: "employee_tbl (db w) = Some rows" and
    ok: "employee_row_ok ((db w)\<lparr>calls := calls (db w) @ [Execute ?st]\<rparr>)
           (id_d (department self)) (chief_id self) (name_e self) (salary self)" and
    w1: "w1 = w\<lparr>db := (db w)\<lparr>calls := calls (db w) @ [Execute ?st],
                   employee_tbl :=
                     Some (map (\<lambda>(j, r). if j = i then (j, the (id_d (department self)), chief_id self,
                                                        name_e self, salary self)
                                          else (j, r)) rows)\<rparr>\<rparr>"
    by (auto split: option.splits if_splits)
  from ok obtain dept_id where d: "id_d (department self) = Some dept_id"
    by (auto simp: employee_row_ok_def split: option.splits)
  note w1' = w1 [unfolded d option.sel]
  from conn_commit_Inr [OF 2] have "w' = w1\<lparr>db := (db w1)\<lparr>calls := calls (db w1) @ [Commit]\<rparr>\<rparr>" .
  then show ?thesis using r d 3 w1' by simp
qed

lemma Department_init_Inr:
  assumes "Department_init name w = (Inr d, w')"
  shows "\<exists>rows. department_tbl (db w) = Some rows \<and>
           d = Department (shorten name) (Some (department_ident (db w))) \<and>
           w' = w\<lparr>db := (db w)\<lparr>
                  department_tbl := Some (rows @ [(department_ident (db w), shorten name)]),
                  department_ident := department_ident (db w) + 1,
                  last_identity := Some (department_ident (db w)),
                  result_rows := [],
                  calls := calls (db w) @
                    [Execute (INSERT_department (shorten name)), Execute SELECT_IDENTITY,
                     Fetchone, Commit]\<rparr>\<rparr>"
proof -
  from assms obtain u where
    "Department_save (Department (shorten name) None) w = (Inr u, d, w')"
    by (auto simp: Department_init_def split: prod.splits sum.splits)
  from Department_save_insert [OF _ this] show ?thesis by simp
qed

lemma Employee_init_Inr:
  assumes "Employee_init dept chf name sal w = (Inr e, w')"
  shows "\<exists>rows dept_id.
           employee_tbl (db w) = Some rows \<and> id_d dept = Some dept_id \<and>
           e = Employee dept chf (shorten name) sal (Some (employee_ident (db w))) \<and>
           w' = w\<lparr>db := (db w)\<lparr>
                  employee_tbl := Some (rows @ [(employee_ident (db w), dept_id, chief_id e,
                                                  shorten name, sal)]),
                  employee_ident := employee_ident (db w) + 1,
                  last_identity := Some (employee_ident (db w)),
                  result_rows := [],
                  calls := calls (db w) @
                    [Execute (INSERT_employee (Some dept_id) (chief_id e) (shorten name) sal),
                     Execute SELECT_IDENTITY, Fetchone, Commit]\<rparr>\<rparr>"
proof -
  from assms obtain u where
    "Employee_save (Employee dept chf (shorten name) sal None) w = (Inr u, e, w')"
    by (auto simp: Employee_init_def split: prod.splits sum.splits)
  from Employee_save_insert [OF _ this] show ?thesis by (auto simp: chief_id_def)
qed

lemma fake_unique_Inr:
  assumes "fake_unique c w = (Inr s, w')"
  shows "provider (fake w) (history (fake w) @ [c]) = Some s \<and>
         w' = w\<lparr>fake := (fake w)\<lparr>history := history (fake w) @ [c]\<rparr>\<rparr>"
  using assms by (auto simp: fake_unique_def Let_def split: option.splits)

lemma randint_Inr:
  assumes "randint a b w = (Inr v, w')"
  shows "a \<le> v \<and> v \<le> b \<and> w' = w\<lparr>random_pos := random_pos w + 1\<rparr> \<and>
         v = a + int (random_src w (random_pos w) mod nat (b - a + 1))"
proof -
  from assms have ab: "a \<le> b" and
    v: "v = a + int (random_src w (random_pos w) mod nat (b - a + 1))" and
    w': "w' = w\<lparr>random_pos := random_pos w + 1\<rparr>"
    by (auto simp: randint_def split: if_splits)
  from ab have "0 < nat (b - a + 1)" by simp
  then have "random_src w (random_pos w) mod nat (b - a + 1) < nat (b - a + 1)"
    by (rule mod_less_divisor)
  with ab v have "a \<le> v \<and> v \<le> b" by linarith
  with v w' show ?thesis by simp
qed

lemma randint_Inl:
  assumes "randint a b w = (Inl e, w')"
  shows "b < a"
  using assms by (auto simp: randint_def split: if_splits)

lemma getitem_range:
  assumes "0 \<le> i" and "i < int (length xs)"
  shows "getitem xs i = Inr (xs ! nat i)"
  using assms by (simp add: getitem_def)

lemma choose_chief_pos_Inr:
  assumes "choose_chief_pos employees w = (Inr pos, w')"
  shows "- 1 \<le> pos \<and> pos \<le> int (length employees) - 1 \<and>
         (employees = [] \<longrightarrow> pos = - 1 \<and> w' = w) \<and>
         (employees \<noteq> [] \<longrightarrow> w' = w\<lparr>random_pos := random_pos w + 1\<rparr>)"
proof (cases "employees = []")
  case True
  with assms show ?thesis by (simp add: choose_chief_pos_def)
next
  case False
  with assms have "randint (- 1) (int (length employees) - 1) w = (Inr pos, w')"
    by (simp add: choose_chief_pos_def)
  from randint_Inr [OF this] False show ?thesis by simp
qed

lemma choose_chief_pos_not_Inl: "choose_chief_pos employees w \<noteq> (Inl e, w')"
  by (auto simp: choose_chief_pos_def dest: randint_Inl)

lemma chief_at_range:
  assumes "- 1 \<le> pos" and "pos \<le> int (length employees) - 1"
  shows "chief_at employees pos =
           Inr (if pos = - 1 then None else Some (employees ! nat pos))"
  using assms by (auto simp: chief_at_def getitem_def)

lemma new_employee_Inr:
  assumes "new_employee departments employees w = (Inr e, w')"
  shows "\<exists>department_pos chief_pos nm sal w1 w2 w3 w4.
           randint 0 (int (length departments) - 1) w = (Inr department_pos, w1) \<and>
           choose_chief_pos employees w1 = (Inr chief_pos, w2) \<and>
           fake_unique Unique_name w2 = (Inr nm, w3) \<and>
           randint 20000 100001 w3 = (Inr sal, w4) \<and>
           Employee_init (departments ! nat department_pos)
             (if chief_pos = - 1 then None else Some (employees ! nat chief_pos)) nm sal w4 =
             (Inr e, w')"
proof -
  from assms obtain department_pos chief_pos dept chf nm sal w1 w2 w3 w4 where
    1: "randint 0 (int (length departments) - 1) w = (Inr department_pos, w1)" and
    2: "choose_chief_pos employees w1 = (Inr chief_pos, w2)" and
    3: "getitem departments department_pos = Inr dept" and
    4: "chief_at employees chief_pos = Inr chf" and
    5: "fake_unique Unique_name w2 = (Inr nm, w3)" and
    6: "randint 20000 100001 w3 = (Inr sal, w4)" and
    7: "Employee_init dept chf nm sal w4 = (Inr e, w')"
    by (auto simp: new_employee_def split: prod.splits sum.splits)
  from randint_Inr [OF 1] 3 have d: "dept = departments ! nat department_pos"
    by (simp add: getitem_range)
  from choose_chief_pos_Inr [OF 2] 4
  have c: "chf = (if chief_pos = - 1 then None else Some (employees ! nat chief_pos))"
    by (simp add: chief_at_range)
  from 1 2 5 6 7 d c show ?thesis by blast
qed

lemma employees_loop_invariant:
  assumes "employees_loop n departments employees w = (Inr es, w')"
    and "I employees w"
    and "\<And>es0 w0 e w1. I es0 w0 \<Longrightarrow> new_employee departments es0 w0 = (Inr e, w1) \<Longrightarrow>
           I (es0 @ [e]) w1"
  shows "I es w'"
  using assms(1,2)
proof (induction n arbitrary: employees w)
  case 0
  then show ?case by simp
next
  case (Suc n)
  from Suc.prems(1) obtain e w1 where
    1: "new_employee departments employees w = (Inr e, w1)" and
    2: "employees_loop n departments (employees @ [e]) w1 = (Inr es, w')"
    by (auto split: prod.splits sum.splits)
  from assms(3) [OF Suc.prems(2) 1] have "I (employees @ [e]) w1" .
  from Suc.IH [OF 2 this] show ?case .
qed

lemma departments_loop_invariant:
  assumes "departments_loop n departments w = (Inr ds, w')"
    and "I departments w"
    and "\<And>ds0 w0 phrase w1 d w2. I ds0 w0 \<Longrightarrow>
           fake_unique Unique_catch_phrase w0 = (Inr phrase, w1) \<Longrightarrow>
           Department_init phrase w1 = (Inr d, w2) \<Longrightarrow> I (ds0 @ [d]) w2"
  shows "I ds w'"
  using assms(1,2)
proof (induction n arbitrary: departments w)
  case 0
  then show ?case by simp
next
  case (Suc n)
  from Suc.prems(1) obtain phrase w1 d w2 where
    1: "fake_unique Unique_catch_phrase w = (Inr phrase, w1)" and
    2: "Department_init phrase w1 = (Inr d, w2)" and
    3: "departments_loop n (departments @ [d]) w2 = (Inr ds, w')"
    by (auto split: prod.splits sum.splits)
  from assms(3) [OF Suc.prems(2) 1 2] have "I (departments @ [d]) w2" .
  from Suc.IH [OF 3 this] show ?case .
qed

lemma employees_loop_length:
  assumes "employees_loop n departments employees w = (Inr es, w')"
  shows "length es = length employees + n \<and> take (length employees) es = employees"
  using assms
proof (induction n arbitrary: employees w)
  case 0
  then show ?case by simp
next
  case (Suc n)
  from Suc.prems obtain e w1 where
    "employees_loop n departments (employees @ [e]) w1 = (Inr es, w')"
    by (auto split: prod.splits sum.splits)
  from Suc.IH [OF this] have l: "length es = length employees + Suc n"
    and t: "take (Suc (length employees)) es = employees @ [e]" by simp_all
  have "take (length employees) es = take (length employees) (take (Suc (length employees)) es)"
    by simp
  also have "\<dots> = employees" unfolding t by simp
  finally show ?case using l by simp
qed

lemma departments_loop_length:
  assumes "departments_loop n departments w = (Inr ds, w')"
  shows "length ds = length departments + n"
  using assms
proof (induction n arbitrary: departments w)
  case 0
  then show ?case by simp
next
  case (Suc n)
  from Suc.prems obtain d w2 where
    "departments_loop n (departments @ [d]) w2 = (Inr ds, w')"
    by (auto split: prod.splits sum.splits)
  from Suc.IH [OF this] show ?case by simp
qed

lemma new_employee_step:
  assumes "new_employee departments employees w = (Inr e, w')"
  shows "\<exists>rows dept_id nm.
           employee_tbl (db w) = Some rows \<and>
           department e \<in> set departments \<and> id_d (department e) = Some dept_id \<and>
           id_e e = Some (employee_ident (db w)) \<and>
           provider (fake w) (history (fake w) @ [Unique_name]) = Some nm \<and>
           name_e e = shorten nm \<and>
           fake w' = (fake w)\<lparr>history := history (fake w) @ [Unique_name]\<rparr> \<and>
           warnings w' = warnings w \<and>
           db w' = (db w)\<lparr>
             employee_tbl := Some (rows @ [(employee_ident (db w), dept_id, chief_id e,
                                             name_e e, salary e)]),
             employee_ident := employee_ident (db w) + 1,
             last_identity := Some (employee_ident (db w)),
             result_rows := [],
             calls := calls (db w) @
               [Execute (INSERT_employee (Some dept_id) (chief_id e) (name_e e) (salary e)),
                Execute SELECT_IDENTITY, Fetchone, Commit]\<rparr>"
proof -
  from new_employee_Inr [OF assms] obtain department_pos chief_pos nm sal w1 w2 w3 w4 where
    1: "randint 0 (int (length departments) - 1) w = (Inr department_pos, w1)" and
    2: "choose_chief_pos employees w1 = (Inr chief_pos, w2)" and
    3: "fake_unique Unique_name w2 = (Inr nm, w3)" and
    4: "randint 20000 100001 w3 = (Inr sal, w4)" and
    5: "Employee_init (departments ! nat department_pos)
          (if chief_pos = - 1 then None else Some (employees ! nat chief_pos)) nm sal w4 =
          (Inr e, w')"
    by blast
  from randint_Inr [OF 1] have
    p: "0 \<le> department_pos" "department_pos \<le> int (length departments) - 1" and
    w1: "w1 = w\<lparr>random_pos := random_pos w + 1\<rparr>" by simp_all
  from p have m: "departments ! nat department_pos \<in> set departments" by simp
  from choose_chief_pos_Inr [OF 2] have
    w2: "w2 = w1 \<or> w2 = w1\<lparr>random_pos := random_pos w1 + 1\<rparr>" by (cases "employees = []") simp_all
  from fake_unique_Inr [OF 3] have
    nm: "provider (fake w2) (history (fake w2) @ [Unique_name]) = Some nm" and
    w3: "w3 = w2\<lparr>fake := (fake w2)\<lparr>history := history (fake w2) @ [Unique_name]\<rparr>\<rparr>" by simp_all
  from randint_Inr [OF 4] have w4: "w4 = w3\<lparr>random_pos := random_pos w3 + 1\<rparr>" by simp
  from w1 w2 have a: "db w2 = db w" "fake w2 = fake w" "warnings w2 = warnings w" by auto
  from a w3 w4 have b: "db w4 = db w" "warnings w4 = warnings w"
    "fake w4 = (fake w)\<lparr>history := history (fake w) @ [Unique_name]\<rparr>" by simp_all
  from Employee_init_Inr [OF 5] obtain rows dept_id where
    r: "employee_tbl (db w4) = Some rows" and
    d: "id_d (departments ! nat department_pos) = Some dept_id" and
    e: "e = Employee (departments ! nat department_pos)
              (if chief_pos = - 1 then None else Some (employees ! nat chief_pos))
              (shorten nm) sal (Some (employee_ident (db w4)))" and
    w': "w' = w4\<lparr>db := (db w4)\<lparr>
           employee_tbl := Some (rows @ [(employee_ident (db w4), dept_id, chief_id e,
                                           shorten nm, sal)]),
           employee_ident := employee_ident (db w4) + 1,
           last_identity := Some (employee_ident (db w4)),
           result_rows := [],
           calls := calls (db w4) @
             [Execute (INSERT_employee (Some dept_id) (chief_id e) (shorten nm) sal),
              Execute SELECT_IDENTITY, Fetchone, Commit]\<rparr>\<rparr>"
    by blast
  from e have s1: "department e = departments ! nat department_pos" and
    s2: "shorten nm = name_e e" and s3: "sal = salary e" and
    s4: "id_e e = Some (employee_ident (db w4))" by simp_all
  from nm a have c3: "provider (fake w) (history (fake w) @ [Unique_name]) = Some nm" by simp
  from r b have c1: "employee_tbl (db w) = Some rows" by simp
  from m s1 have c2: "department e \<in> set departments" by simp
  from d s1 have c4: "id_d (department e) = Some dept_id" by simp
  from s4 b have c5: "id_e e = Some (employee_ident (db w))" by simp
  from s2 have c6: "name_e e = shorten nm" by simp
  from w' b have c7: "fake w' = (fake w)\<lparr>history := history (fake w) @ [Unique_name]\<rparr>"
    and c8: "warnings w' = warnings w" by simp_all
  from w' have "db w' = (db w4)\<lparr>
           employee_tbl := Some (rows @ [(employee_ident (db w4), dept_id, chief_id e,
                                           shorten nm, sal)]),
           employee_ident := employee_ident (db w4) + 1,
           last_identity := Some (employee_ident (db w4)),
           result_rows := [],
           calls := calls (db w4) @
             [Execute (INSERT_employee (Some dept_id) (chief_id e) (shorten nm) sal),
              Execute SELECT_IDENTITY, Fetchone, Commit]\<rparr>" by simp
  note c9 = this [unfolded b(1) s2 s3]
  show ?thesis
    by (intro exI conjI) (fact c1 c2 c4 c5 c3 c6 c7 c8 c9)+
qed

lemma department_step:
  assumes "fake_unique Unique_catch_phrase w = (Inr phrase, w1)"
    and "Department_init phrase w1 = (Inr d, w2)"
  shows "\<exists>rows.
           department_tbl (db w) = Some rows \<and>
           provider (fake w) (history (fake w) @ [Unique_catch_phrase]) = Some phrase \<and>
           d = Department (shorten phrase) (Some (department_ident (db w))) \<and>
           fake w2 = (fake w)\<lparr>history := history (fake w) @ [Unique_catch_phrase]\<rparr> \<and>
           warnings w2 = warnings w \<and> random_src w2 = random_src w \<and>
           random_pos w2 = random_pos w \<and>
           db w2 = (db w)\<lparr>
             department_tbl := Some (rows @ [(department_ident (db w), shorten phrase)]),
             department_ident := department_ident (db w) + 1,
             last_identity := Some (department_ident (db w)),
             result_rows := [],
             calls := calls (db w) @
               [Execute (INSERT_department (shorten phrase)), Execute SELECT_IDENTITY,
                Fetchone, Commit]\<rparr>"
proof -
  from fake_unique_Inr [OF assms(1)] have
    p: "provider (fake w) (history (fake w) @ [Unique_catch_phrase]) = Some phrase" and
    w1: "w1 = w\<lparr>fake := (fake w)\<lparr>history := history (fake w) @ [Unique_catch_phrase]\<rparr>\<rparr>"
    by simp_all
  from Department_init_Inr [OF assms(2)] w1 p show ?thesis by auto
qed

lemma snoc_all_take:
  assumes "\<forall>k<length xs. P k (take k xs) (xs ! k)" and "P (length xs) xs x"
  shows "\<forall>k<length (xs @ [x]). P k (take k (xs @ [x])) ((xs @ [x]) ! k)"
proof (intro allI impI)
  fix k assume "k < length (xs @ [x])"
  then consider "k < length xs" | "k = length xs" by fastforce
  then show "P k (take k (xs @ [x])) ((xs @ [x]) ! k)"
  proof cases
    case 1
    with assms(1) show ?thesis by (simp add: nth_append)
  next
    case 2
    with assms(2) show ?thesis by simp
  qed
qed

lemma choose_chief_pos_value:
  "choose_chief_pos employees w =
     (Inr (if employees = [] then - 1
           else - 1 + int (random_src w (random_pos w) mod (length employees + 1))),
      if employees = [] then w else w\<lparr>random_pos := random_pos w + 1\<rparr>)"
proof (cases "employees = []")
  case True
  then show ?thesis by (simp add: choose_chief_pos_def)
next
  case False
  have "nat (int (length employees) - 1 - - 1 + 1) = length employees + 1" by simp
  with False show ?thesis by (simp add: choose_chief_pos_def randint_def)
qed

lemma new_employee_draws:
  assumes "new_employee departments employees w = (Inr e, w')"
  shows "departments \<noteq> [] \<and> random_src w' = random_src w \<and>
         random_pos w' = random_pos w + (if employees = [] then 2 else 3) \<and>
         department e = departments ! (random_src w (random_pos w) mod length departments) \<and>
         chief e =
           (if employees = [] \<or> random_src w (random_pos w + 1) mod (length employees + 1) = 0
            then None
            else Some (employees ! (random_src w (random_pos w + 1) mod (length employees + 1) - 1))) \<and>
         salary e =
           20000 + int (random_src w (random_pos w + (if employees = [] then 1 else 2)) mod 80002)"
proof -
  from new_employee_Inr [OF assms] obtain department_pos chief_pos nm sal w1 w2 w3 w4 where
    1: "randint 0 (int (length departments) - 1) w = (Inr department_pos, w1)" and
    2: "choose_chief_pos employees w1 = (Inr chief_pos, w2)" and
    3: "fake_unique Unique_name w2 = (Inr nm, w3)" and
    4: "randint 20000 100001 w3 = (Inr sal, w4)" and
    5: "Employee_init (departments ! nat department_pos)
          (if chief_pos = - 1 then None else Some (employees ! nat chief_pos)) nm sal w4 =
          (Inr e, w')"
    by blast
  from randint_Inr [OF 1] have
    p: "0 \<le> department_pos" "department_pos \<le> int (length departments) - 1" and
    w1: "w1 = w\<lparr>random_pos := random_pos w + 1\<rparr>" and
    dp: "department_pos = 0 + int (random_src w (random_pos w) mod nat (int (length departments) - 1 - 0 + 1))"
    by simp_all
  from p have ne: "departments \<noteq> []" by auto
  have "nat (int (length departments) - 1 - 0 + 1) = length departments" by simp
  with dp have dp': "nat department_pos = random_src w (random_pos w) mod length departments"
    by simp
  from 2 [unfolded choose_chief_pos_value] w1 have
    cp: "chief_pos = (if employees = [] then - 1
           else - 1 + int (random_src w (random_pos w + 1) mod (length employees + 1)))" and
    w2: "w2 = (if employees = [] then w1 else w1\<lparr>random_pos := random_pos w1 + 1\<rparr>)"
    by (auto split: if_splits)
  from fake_unique_Inr [OF 3] have
    w3: "w3 = w2\<lparr>fake := (fake w2)\<lparr>history := history (fake w2) @ [Unique_name]\<rparr>\<rparr>" by simp
  from randint_Inr [OF 4] have w4: "w4 = w3\<lparr>random_pos := random_pos w3 + 1\<rparr>" and
    sal: "sal = 20000 + int (random_src w3 (random_pos w3) mod nat (100001 - 20000 + 1))"
    by simp_all
  from w1 w2 w3 have r3: "random_src w3 = random_src w"
    "random_pos w3 = random_pos w + (if employees = [] then 1 else 2)" by simp_all
  from r3 w4 have r4: "random_src w4 = random_src w"
    "random_pos w4 = random_pos w + (if employees = [] then 2 else 3)" by simp_all
  from Employee_init_Inr [OF 5] obtain d where
    e: "e = Employee (departments ! nat department_pos)
              (if chief_pos = - 1 then None else Some (employees ! nat chief_pos))
              (shorten nm) sal (Some (employee_ident (db w4)))" and
    w': "w' = w4\<lparr>db := d\<rparr>"
    by blast
  from w' r4 have c1: "random_src w' = random_src w"
    and c2: "random_pos w' = random_pos w + (if employees = [] then 2 else 3)" by simp_all
  from e dp' have c3: "department e = departments ! (random_src w (random_pos w) mod length departments)"
    by simp
  from sal r3 have "sal = 20000 + int (random_src w (random_pos w + (if employees = [] then 1 else 2)) mod 80002)"
    by simp
  with e have c5: "salary e =
      20000 + int (random_src w (random_pos w + (if employees = [] then 1 else 2)) mod 80002)"
    by simp
  have c4: "chief e =
           (if employees = [] \<or> random_src w (random_pos w + 1) mod (length employees + 1) = 0
            then None
            else Some (employees ! (random_src w (random_pos w + 1) mod (length employees + 1) - 1)))"
  proof (cases "employees = []")
    case True
    with e cp show ?thesis by simp
  next
    case False
    let ?r = "random_src w (random_pos w + 1) mod (length employees + 1)"
    from False cp have cp': "chief_pos = - 1 + int ?r" by simp
    show ?thesis
    proof (cases "?r = 0")
      case True
      with cp' e False show ?thesis by simp
    next
      case r: False
      with cp' have "chief_pos \<noteq> - 1" and "nat chief_pos = ?r - 1" by simp_all
      with e False r show ?thesis by simp
    qed
  qed
  from ne c1 c2 c3 c4 c5 show ?thesis by blast
qed

lemma employees_loop_draws:
  assumes "employees_loop n departments [] w = (Inr es, w')"
  shows "random_src w' = random_src w \<and>
         random_pos w' = random_pos w + (if length es = 0 then 0 else 3 * length es - 1) \<and>
         (\<forall>k<length es.
            department (es ! k) =
              departments ! (random_src w (random_pos w + (if k = 0 then 0 else 3 * k - 1))
                              mod length departments) \<and>
            chief (es ! k) =
              (if k = 0 \<or> random_src w (random_pos w + 3 * k) mod (k + 1) = 0 then None
               else Some (take k es ! (random_src w (random_pos w + 3 * k) mod (k + 1) - 1))) \<and>
            salary (es ! k) = 20000 + int (random_src w (random_pos w + 3 * k + 1) mod 80002))"
proof -
  let ?P = "\<lambda>k prev e.
     department e =
       departments ! (random_src w (random_pos w + (if k = 0 then 0 else 3 * k - 1))
                       mod length departments) \<and>
     chief e =
       (if k = 0 \<or> random_src w (random_pos w + 3 * k) mod (k + 1) = 0 then None
        else Some (prev ! (random_src w (random_pos w + 3 * k) mod (k + 1) - 1))) \<and>
     salary e = 20000 + int (random_src w (random_pos w + 3 * k + 1) mod 80002)"
  let ?I = "\<lambda>es0 w0. random_src w0 = random_src w \<and>
     random_pos w0 = random_pos w + (if length es0 = 0 then 0 else 3 * length es0 - 1) \<and>
     (\<forall>k<length es0. ?P k (take k es0) (es0 ! k))"
  have "?I es w'"
  proof (rule employees_loop_invariant [OF assms, where I = ?I])
    show "?I [] w" by simp
  next
    fix es0 w0 e w1
    assume inv: "?I es0 w0" and step: "new_employee departments es0 w0 = (Inr e, w1)"
    from inv have s0: "random_src w0 = random_src w"
      and p0: "random_pos w0 = random_pos w + (if length es0 = 0 then 0 else 3 * length es0 - 1)"
      and old: "\<forall>k<length es0. ?P k (take k es0) (es0 ! k)" by blast+
    note d = new_employee_draws [OF step, unfolded s0 p0]
    have pd: "random_pos w + (if length es0 = 0 then 0 else 3 * length es0 - 1) + 1 =
              random_pos w + 3 * length es0" if "es0 \<noteq> []"
      using that by (cases es0) simp_all
    have ps: "random_pos w + (if length es0 = 0 then 0 else 3 * length es0 - 1) +
                (if es0 = [] then 1 else 2) = random_pos w + 3 * length es0 + 1"
      by (cases es0) simp_all
    have pn: "random_pos w + (if length es0 = 0 then 0 else 3 * length es0 - 1) +
                (if es0 = [] then 2 else 3) =
              random_pos w + (if length (es0 @ [e]) = 0 then 0 else 3 * length (es0 @ [e]) - 1)"
      by (cases es0) simp_all
    from d have c1: "random_src w1 = random_src w" by blast
    from d pn have c2: "random_pos w1 =
        random_pos w + (if length (es0 @ [e]) = 0 then 0 else 3 * length (es0 @ [e]) - 1)"
      by presburger
    from d have dpt: "department e =
        departments ! (random_src w (random_pos w + (if length es0 = 0 then 0 else 3 * length es0 - 1))
                        mod length departments)" by blast
    from d ps have sl: "salary e =
        20000 + int (random_src w (random_pos w + 3 * length es0 + 1) mod 80002)"
      by presburger
    have ch: "chief e =
       (if length es0 = 0 \<or> random_src w (random_pos w + 3 * length es0) mod (length es0 + 1) = 0
        then None
        else Some (es0 ! (random_src w (random_pos w + 3 * length es0) mod (length es0 + 1) - 1)))"
    proof (cases "es0 = []")
      case True
      with d show ?thesis by simp
    next
      case False
      from d have "chief e =
        (if es0 = [] \<or> random_src w (random_pos w + (if length es0 = 0 then 0 else 3 * length es0 - 1) + 1)
                          mod (length es0 + 1) = 0
         then None
         else Some (es0 ! (random_src w (random_pos w + (if length es0 = 0 then 0 else 3 * length es0 - 1) + 1)
                            mod (length es0 + 1) - 1)))" by blast
      then show ?thesis unfolding pd [OF False] using False by simp
    qed
    from dpt ch sl have new: "?P (length es0) es0 e" by blast
    from snoc_all_take [where P = ?P, OF old new]
    have "\<forall>k<length (es0 @ [e]). ?P k (take k (es0 @ [e])) ((es0 @ [e]) ! k)" .
    with c1 c2 show "?I (es0 @ [e]) w1" by blast
  qed
  then show ?thesis by blast
qed

lemma employees_loop_state:
  assumes "employees_loop n departments [] w = (Inr es, w')"
  shows "length es = n \<and>
         fake w' = (fake w)\<lparr>history := history (fake w) @ replicate (length es) Unique_name\<rparr> \<and>
         warnings w' = warnings w \<and>
         employee_ident (db w') = employee_ident (db w) + int (length es) \<and>
         department_tbl (db w') = department_tbl (db w) \<and>
         department_ident (db w') = department_ident (db w) \<and>
         faults (db w') = faults (db w) \<and>
         (\<forall>k<length es.
            id_e (es ! k) = Some (employee_ident (db w) + int k) \<and>
            name_e (es ! k) =
              shorten (the (provider (fake w) (history (fake w) @ replicate (Suc k) Unique_name))) \<and>
            department (es ! k) \<in> set departments \<and>
            id_d (department (es ! k)) \<noteq> None)"
proof -
  let ?P = "\<lambda>k (prev :: Employee list) e.
     id_e e = Some (employee_ident (db w) + int k) \<and>
     name_e e = shorten (the (provider (fake w) (history (fake w) @ replicate (Suc k) Unique_name))) \<and>
     department e \<in> set departments \<and> id_d (department e) \<noteq> None"
  let ?I = "\<lambda>es0 w0.
     fake w0 = (fake w)\<lparr>history := history (fake w) @ replicate (length es0) Unique_name\<rparr> \<and>
     warnings w0 = warnings w \<and>
     employee_ident (db w0) = employee_ident (db w) + int (length es0) \<and>
     department_tbl (db w0) = department_tbl (db w) \<and>
     department_ident (db w0) = department_ident (db w) \<and>
     faults (db w0) = faults (db w) \<and>
     (\<forall>k<length es0. ?P k (take k es0) (es0 ! k))"
  have "?I es w'"
  proof (rule employees_loop_invariant [OF assms, where I = ?I])
    show "?I [] w" by simp
  next
    fix es0 w0 e w1
    assume inv: "?I es0 w0" and step: "new_employee departments es0 w0 = (Inr e, w1)"
    from inv have
      f0: "fake w0 = (fake w)\<lparr>history := history (fake w) @ replicate (length es0) Unique_name\<rparr>"
      and i0: "employee_ident (db w0) = employee_ident (db w) + int (length es0)"
      and r0: "warnings w0 = warnings w" "department_tbl (db w0) = department_tbl (db w)"
        "department_ident (db w0) = department_ident (db w)" "faults (db w0) = faults (db w)"
      and old: "\<forall>k<length es0. ?P k (take k es0) (es0 ! k)" by blast+
    from new_employee_step [OF step] obtain rows dept_id nm where
      m: "department e \<in> set departments" and
      d: "id_d (department e) = Some dept_id" and
      i: "id_e e = Some (employee_ident (db w0))" and
      pr: "provider (fake w0) (history (fake w0) @ [Unique_name]) = Some nm" and
      nm: "name_e e = shorten nm" and
      f1: "fake w1 = (fake w0)\<lparr>history := history (fake w0) @ [Unique_name]\<rparr>" and
      wn: "warnings w1 = warnings w0" and
      db1: "db w1 = (db w0)\<lparr>
             employee_tbl := Some (rows @ [(employee_ident (db w0), dept_id, chief_id e,
                                             name_e e, salary e)]),
             employee_ident := employee_ident (db w0) + 1,
             last_identity := Some (employee_ident (db w0)),
             result_rows := [],
             calls := calls (db w0) @
               [Execute (INSERT_employee (Some dept_id) (chief_id e) (name_e e) (salary e)),
                Execute SELECT_IDENTITY, Fetchone, Commit]\<rparr>"
      by blast
    have rep: "replicate (length es0) Unique_name @ [Unique_name] =
               replicate (Suc (length es0)) Unique_name"
      by (simp add: replicate_append_same)
    from pr f0 have "provider (fake w)
        (history (fake w) @ replicate (length es0) Unique_name @ [Unique_name]) = Some nm" by simp
    then have "provider (fake w) (history (fake w) @ replicate (Suc (length es0)) Unique_name) = Some nm"
      unfolding rep .
    with nm have n1: "name_e e =
        shorten (the (provider (fake w) (history (fake w) @ replicate (Suc (length es0)) Unique_name)))"
      by simp
    from i i0 have i1: "id_e e = Some (employee_ident (db w) + int (length es0))" by simp
    from i1 n1 m d have new: "?P (length es0) es0 e" by simp
    from snoc_all_take [where P = ?P, OF old new]
    have all: "\<forall>k<length (es0 @ [e]). ?P k (take k (es0 @ [e])) ((es0 @ [e]) ! k)" .
    from f1 f0 have c1: "fake w1 =
        (fake w)\<lparr>history := history (fake w) @ replicate (length (es0 @ [e])) Unique_name\<rparr>"
      by (simp add: replicate_append_same)
    from wn r0 have c2: "warnings w1 = warnings w" by simp
    from db1 i0 have c3: "employee_ident (db w1) = employee_ident (db w) + int (length (es0 @ [e]))"
      by simp
    from db1 r0 have c4: "department_tbl (db w1) = department_tbl (db w)"
      "department_ident (db w1) = department_ident (db w)" "faults (db w1) = faults (db w)"
      by simp_all
    from c1 c2 c3 c4 all show "?I (es0 @ [e]) w1" by blast
  qed
  with employees_loop_length [OF assms] show ?thesis by simp
qed

lemma employees_loop_log:
  assumes "employees_loop n departments [] w = (Inr es, w')"
  shows "calls (db w') = calls (db w) @
           concat (map (\<lambda>e. [Execute (INSERT_employee (id_d (department e)) (chief_id e)
                                        (name_e e) (salary e)),
                              Execute SELECT_IDENTITY, Fetchone, Commit]) es) \<and>
         employee_tbl (db w') =
           (if es = [] then employee_tbl (db w)
            else Some (the (employee_tbl (db w)) @
                       map (\<lambda>e. (the (id_e e), the (id_d (department e)), chief_id e,
                                  name_e e, salary e)) es))"
proof -
  let ?c = "\<lambda>e. [Execute (INSERT_employee (id_d (department e)) (chief_id e) (name_e e) (salary e)),
                  Execute SELECT_IDENTITY, Fetchone, Commit]"
  let ?r = "\<lambda>e. (the (id_e e), the (id_d (department e)), chief_id e, name_e e, salary e)"
  let ?I = "\<lambda>es0 w0.
     calls (db w0) = calls (db w) @ concat (map ?c es0) \<and>
     employee_tbl (db w0) =
       (if es0 = [] then employee_tbl (db w) else Some (the (employee_tbl (db w)) @ map ?r es0))"
  show ?thesis
  proof (rule employees_loop_invariant [OF assms, where I = ?I])
    show "?I [] w" by simp
  next
    fix es0 w0 e w1
    assume inv: "?I es0 w0" and step: "new_employee departments es0 w0 = (Inr e, w1)"
    from inv have c0: "calls (db w0) = calls (db w) @ concat (map ?c es0)"
      and t0: "employee_tbl (db w0) =
        (if es0 = [] then employee_tbl (db w) else Some (the (employee_tbl (db w)) @ map ?r es0))"
      by blast+
    from new_employee_step [OF step] obtain rows dept_id where
      r: "employee_tbl (db w0) = Some rows" and
      d: "id_d (department e) = Some dept_id" and
      i: "id_e e = Some (employee_ident (db w0))" and
      db1: "db w1 = (db w0)\<lparr>
             employee_tbl := Some (rows @ [(employee_ident (db w0), dept_id, chief_id e,
                                             name_e e, salary e)]),
             employee_ident := employee_ident (db w0) + 1,
             last_identity := Some (employee_ident (db w0)),
             result_rows := [],
             calls := calls (db w0) @
               [Execute (INSERT_employee (Some dept_id) (chief_id e) (name_e e) (salary e)),
                Execute SELECT_IDENTITY, Fetchone, Commit]\<rparr>"
      by blast
    from db1 c0 d have c1: "calls (db w1) = calls (db w) @ concat (map ?c (es0 @ [e]))" by simp
    from r t0 have rows: "rows = the (employee_tbl (db w)) @ map ?r es0"
      by (cases "es0 = []") simp_all
    from db1 have "employee_tbl (db w1) =
        Some (rows @ [(employee_ident (db w0), dept_id, chief_id e, name_e e, salary e)])" by simp
    with rows i d have t1: "employee_tbl (db w1) =
        Some (the (employee_tbl (db w)) @ map ?r (es0 @ [e]))" by simp
    from c1 t1 show "?I (es0 @ [e]) w1" by simp
  qed
qed

lemma departments_loop_run:
  assumes "departments_loop n [] w = (Inr ds, w')"
  shows "length ds = n \<and> random_src w' = random_src w \<and> random_pos w' = random_pos w \<and>
         fake w' = (fake w)\<lparr>history := history (fake w) @ replicate (length ds) Unique_catch_phrase\<rparr> \<and>
         warnings w' = warnings w \<and>
         department_ident (db w') = department_ident (db w) + int (length ds) \<and>
         employee_tbl (db w') = employee_tbl (db w) \<and>
         employee_ident (db w') = employee_ident (db w) \<and>
         faults (db w') = faults (db w) \<and>
         calls (db w') = calls (db w) @
           concat (map (\<lambda>d. [Execute (INSERT_department (name_d d)), Execute SELECT_IDENTITY,
                              Fetchone, Commit]) ds) \<and>
         department_tbl (db w') =
           (if ds = [] then department_tbl (db w)
            else Some (the (department_tbl (db w)) @ map (\<lambda>d. (the (id_d d), name_d d)) ds)) \<and>
         (\<forall>k<length ds.
            ds ! k =
              Department
                (shorten (the (provider (fake w)
                   (history (fake w) @ replicate (Suc k) Unique_catch_phrase))))
                (Some (department_ident (db w) + int k)))"
proof -
  let ?c = "\<lambda>d. [Execute (INSERT_department (name_d d)), Execute SELECT_IDENTITY, Fetchone, Commit]"
  let ?r = "\<lambda>d. (the (id_d d), name_d d)"
  let ?P = "\<lambda>k (prev :: Department list) d.
     d = Department
           (shorten (the (provider (fake w)
              (history (fake w) @ replicate (Suc k) Unique_catch_phrase))))
           (Some (department_ident (db w) + int k))"
  let ?I = "\<lambda>ds0 w0.
     random_src w0 = random_src w \<and> random_pos w0 = random_pos w \<and>
     fake w0 = (fake w)\<lparr>history := history (fake w) @ replicate (length ds0) Unique_catch_phrase\<rparr> \<and>
     warnings w0 = warnings w \<and>
     department_ident (db w0) = department_ident (db w) + int (length ds0) \<and>
     employee_tbl (db w0) = employee_tbl (db w) \<and>
     employee_ident (db w0) = employee_ident (db w) \<and>
     faults (db w0) = faults (db w) \<and>
     calls (db w0) = calls (db w) @ concat (map ?c ds0) \<and>
     department_tbl (db w0) =
       (if ds0 = [] then department_tbl (db w)
        else Some (the (department_tbl (db w)) @ map ?r ds0)) \<and>
     (\<forall>k<length ds0. ?P k (take k ds0) (ds0 ! k))"
  have "?I ds w'"
  proof (rule departments_loop_invariant [OF assms, where I = ?I])
    show "?I [] w" by simp
  next
    fix ds0 w0 phrase w1 d w2
    assume inv: "?I ds0 w0"
      and 1: "fake_unique Unique_catch_phrase w0 = (Inr phrase, w1)"
      and 2: "Department_init phrase w1 = (Inr d, w2)"
    from inv have
      f0: "fake w0 = (fake w)\<lparr>history := history (fake w) @ replicate (length ds0) Unique_catch_phrase\<rparr>"
      and i0: "department_ident (db w0) = department_ident (db w) + int (length ds0)"
      and r0: "random_src w0 = random_src w" "random_pos w0 = random_pos w"
        "warnings w0 = warnings w" "employee_tbl (db w0) = employee_tbl (db w)"
        "employee_ident (db w0) = employee_ident (db w)" "faults (db w0) = faults (db w)"
      and c0: "calls (db w0) = calls (db w) @ concat (map ?c ds0)"
      and t0: "department_tbl (db w0) =
        (if ds0 = [] then department_tbl (db w)
         else Some (the (department_tbl (db w)) @ map ?r ds0))"
      and old: "\<forall>k<length ds0. ?P k (take k ds0) (ds0 ! k)" by blast+
    from department_step [OF 1 2] obtain rows where
      r: "department_tbl (db w0) = Some rows" and
      pr: "provider (fake w0) (history (fake w0) @ [Unique_catch_phrase]) = Some phrase" and
      d: "d = Department (shorten phrase) (Some (department_ident (db w0)))" and
      f2: "fake w2 = (fake w0)\<lparr>history := history (fake w0) @ [Unique_catch_phrase]\<rparr>" and
      o2: "warnings w2 = warnings w0" "random_src w2 = random_src w0"
        "random_pos w2 = random_pos w0" and
      db2: "db w2 = (db w0)\<lparr>
             department_tbl := Some (rows @ [(department_ident (db w0), shorten phrase)]),
             department_ident := department_ident (db w0) + 1,
             last_identity := Some (department_ident (db w0)),
             result_rows := [],
             calls := calls (db w0) @
               [Execute (INSERT_department (shorten phrase)), Execute SELECT_IDENTITY,
                Fetchone, Commit]\<rparr>"
      by blast
    have rep: "replicate (length ds0) Unique_catch_phrase @ [Unique_catch_phrase] =
               replicate (Suc (length ds0)) Unique_catch_phrase"
      by (simp add: replicate_append_same)
    from pr f0 have "provider (fake w)
        (history (fake w) @ replicate (length ds0) Unique_catch_phrase @ [Unique_catch_phrase]) =
        Some phrase" by simp
    then have "provider (fake w)
        (history (fake w) @ replicate (Suc (length ds0)) Unique_catch_phrase) = Some phrase"
      unfolding rep .
    with d i0 have new: "?P (length ds0) ds0 d" by simp
    from snoc_all_take [where P = ?P, OF old new]
    have all: "\<forall>k<length (ds0 @ [d]). ?P k (take k (ds0 @ [d])) ((ds0 @ [d]) ! k)" .
    from f2 f0 have c1: "fake w2 =
        (fake w)\<lparr>history := history (fake w) @ replicate (length (ds0 @ [d])) Unique_catch_phrase\<rparr>"
      by (simp add: replicate_append_same)
    from o2 r0 have c2: "warnings w2 = warnings w" "random_src w2 = random_src w"
      "random_pos w2 = random_pos w" by simp_all
    from db2 i0 have c3: "department_ident (db w2) = department_ident (db w) + int (length (ds0 @ [d]))"
      by simp
    from db2 r0 have c4: "employee_tbl (db w2) = employee_tbl (db w)"
      "employee_ident (db w2) = employee_ident (db w)" "faults (db w2) = faults (db w)"
      by simp_all
    from db2 c0 d have c5: "calls (db w2) = calls (db w) @ concat (map ?c (ds0 @ [d]))" by simp
    from r t0 have rows: "rows = the (department_tbl (db w)) @ map ?r ds0"
      by (cases "ds0 = []") simp_all
    from db2 have "department_tbl (db w2) =
        Some (rows @ [(department_ident (db w0), shorten phrase)])" by simp
    with rows d have c6: "department_tbl (db w2) =
        (if ds0 @ [d] = [] then department_tbl (db w)
         else Some (the (department_tbl (db w)) @ map ?r (ds0 @ [d])))" by simp
    from c1 c2 c3 c4 c5 c6 all show "?I (ds0 @ [d]) w2" by blast
  qed
  with departments_loop_length [OF assms] show ?thesis by simp
qed

lemma get_random_employees_cases:
  assumes "get_random_employees amount departments w = (Inr es, w')"
  shows "(departments = [] \<and> es = [] \<and> w' = w) \<or>
         (departments \<noteq> [] \<and> employees_loop (nat amount) departments [] w = (Inr es, w'))"
  using assms by (cases departments) (simp_all add: get_random_employees_def)

lemma get_random_employees_length:
  assumes "get_random_employees amount departments w = (Inr es, w')"
  shows "length es = (if departments = [] then 0 else nat amount)"
  using get_random_employees_cases [OF assms] employees_loop_state by fastforce

lemma get_random_employees_draws:
  assumes "get_random_employees amount departments w = (Inr es, w')"
  shows "random_src w' = random_src w \<and>
         random_pos w' = random_pos w + (if length es = 0 then 0 else 3 * length es - 1) \<and>
         (\<forall>k<length es.
            department (es ! k) =
              departments ! (random_src w (random_pos w + (if k = 0 then 0 else 3 * k - 1))
                              mod length departments) \<and>
            chief (es ! k) =
              (if k = 0 \<or> random_src w (random_pos w + 3 * k) mod (k + 1) = 0 then None
               else Some (take k es ! (random_src w (random_pos w + 3 * k) mod (k + 1) - 1))) \<and>
            salary (es ! k) = 20000 + int (random_src w (random_pos w + 3 * k + 1) mod 80002))"
  using get_random_employees_cases [OF assms]
proof
  assume "departments = [] \<and> es = [] \<and> w' = w"
  then show ?thesis by simp
next
  assume "departments \<noteq> [] \<and> employees_loop (nat amount) departments [] w = (Inr es, w')"
  then have "employees_loop (nat amount) departments [] w = (Inr es, w')" ..
  then show ?thesis by (rule employees_loop_draws)
qed

lemma get_random_employees_state:
  assumes "get_random_employees amount departments w = (Inr es, w')"
  shows "fake w' = (fake w)\<lparr>history := history (fake w) @ replicate (length es) Unique_name\<rparr> \<and>
         warnings w' = warnings w \<and>
         employee_ident (db w') = employee_ident (db w) + int (length es) \<and>
         department_tbl (db w') = department_tbl (db w) \<and>
         department_ident (db w') = department_ident (db w) \<and>
         faults (db w') = faults (db w) \<and>
         (\<forall>k<length es.
            id_e (es ! k) = Some (employee_ident (db w) + int k) \<and>
            name_e (es ! k) =
              shorten (the (provider (fake w) (history (fake w) @ replicate (Suc k) Unique_name))) \<and>
            department (es ! k) \<in> set departments \<and>
            id_d (department (es ! k)) \<noteq> None)"
  using get_random_employees_cases [OF assms]
proof
  assume "departments = [] \<and> es = [] \<and> w' = w"
  then show ?thesis by simp
next
  assume "departments \<noteq> [] \<and> employees_loop (nat amount) departments [] w = (Inr es, w')"
  then have "employees_loop (nat amount) departments [] w = (Inr es, w')" ..
  from employees_loop_state [OF this] show ?thesis by blast
qed

lemma get_random_employees_log:
  assumes "get_random_employees amount departments w = (Inr es, w')"
  shows "calls (db w') = calls (db w) @
           concat (map (\<lambda>e. [Execute (INSERT_employee (id_d (department e)) (chief_id e)
                                        (name_e e) (salary e)),
                              Execute SELECT_IDENTITY, Fetchone, Commit]) es) \<and>
         employee_tbl (db w') =
           (if es = [] then employee_tbl (db w)
            else Some (the (employee_tbl (db w)) @
                       map (\<lambda>e. (the (id_e e), the (id_d (department e)), chief_id e,
                                  name_e e, salary e)) es))"
  using get_random_employees_cases [OF assms]
proof
  assume "departments = [] \<and> es = [] \<and> w' = w"
  then show ?thesis by simp
next
  assume "departments \<noteq> [] \<and> employees_loop (nat amount) departments [] w = (Inr es, w')"
  then have "employees_loop (nat amount) departments [] w = (Inr es, w')" ..
  then show ?thesis by (rule employees_loop_log)
qed

lemma randint_value:
  assumes "a \<le> b"
  shows "fst (randint a b w) = Inr (a + int (random_src w (random_pos w) mod nat (b - a + 1)))"
  using assms by (simp add: randint_def)

lemma get_random_employees_salaries:
  assumes "get_random_employees amount departments w = (Inr es, w')"
  shows "\<forall>k<length es.
           salary (es ! k) = 20000 + int (random_src w (random_pos w + 3 * k + 1) mod 80002) \<and>
           fst (randint 20000 100001 (w\<lparr>random_pos := random_pos w + 3 * k + 1\<rparr>)) =
             Inr (salary (es ! k))"
proof (intro allI impI)
  fix k assume "k < length es"
  with get_random_employees_draws [OF assms]
  have "salary (es ! k) = 20000 + int (random_src w (random_pos w + 3 * k + 1) mod 80002)"
    by blast
  moreover have "fst (randint 20000 100001 (w\<lparr>random_pos := random_pos w + 3 * k + 1\<rparr>)) =
      Inr (20000 + int (random_src w (random_pos w + 3 * k + 1) mod 80002))"
    by (simp add: randint_def)
  ultimately show "salary (es ! k) = 20000 + int (random_src w (random_pos w + 3 * k + 1) mod 80002) \<and>
           fst (randint 20000 100001 (w\<lparr>random_pos := random_pos w + 3 * k + 1\<rparr>)) =
             Inr (salary (es ! k))" by simp
qed

section \<open>Running the program on the concrete environment\<close>

lemmas run_defs = create_tables_def
     Employee_drop_table_def Department_drop_table_def Department_create_table_def Employee_create_table_def
     cursor_execute_def db_execute_def conn_commit_def db_commit_def logging_warning_def Let_def
     fetchone_0_def db_fetchone_def randint_def fake_unique_def getitem_def
     Department_save_def Department_init_def Employee_save_def Employee_init_def chief_id_def
     get_random_departments_def get_random_employees_def create_fake_data_def new_employee_def
     choose_chief_pos_def chief_at_def employee_row_ok_def department_ids_def employee_ids_def

lemmas env_defs = example_world_def initial_world_def example_db_def Faker_seed_def example_library_def

lemma ready_world_eq:
  "ready_world =
     \<lparr>db = \<lparr>department_tbl = Some [], employee_tbl = Some [],
              department_ident = 1, employee_ident = 1,
              last_identity = None, result_rows = [],
              calls = [Execute DROP_TABLE_employee, Execute DROP_TABLE_department,
                       Execute CREATE_TABLE_department, Commit,
                       Execute CREATE_TABLE_employee, Commit],
              faults = \<lambda>n. False\<rparr>,
      random_src = \<lambda>n. n, random_pos = 0,
      fake = \<lparr>provider = example_library 73, history = []\<rparr>,
      warnings = [DatabaseError 0 (Execute DROP_TABLE_employee),
                  DatabaseError 1 (Execute DROP_TABLE_department)]\<rparr>"
  by (simp add: ready_world_def run_defs env_defs)

lemma loop_numeral:
  "employees_loop (numeral k) = employees_loop (Suc (pred_numeral k))"
  "departments_loop (numeral k) = departments_loop (Suc (pred_numeral k))"
  by (simp_all add: numeral_eq_Suc)

lemma shorten_examples:
  "shorten ''Phrase x'' = ''Phrase x''"
  "shorten ''Phrase xx'' = ''Phrase xx''"
  "shorten ''Phrase xxx'' = ''Phrase xxx''"
  "shorten ''Name x'' = ''Name x''"
  "shorten ''Name xx'' = ''Name xx''"
  "shorten ''Name xxx'' = ''Name xxx''"
  "shorten ''Name xxxx'' = ''Name xxxx''"
  "shorten ''Name xxxxx'' = ''Name xxxxx''"
  by code_simp+

section \<open>Generators that have nothing to generate\<close>

text \<open>
  C7: the department generator called with count 0, and the employee generator called
  with any count and an empty list of departments, return the empty list and leave
  the whole environment as it was: in particular the log of the calls made to the
  database is unchanged, so no insert, update or commit was issued.
\<close>

theorem empty_generators:
  "get_random_departments 0 w = (Inr [], w) \<and>
   get_random_employees amount [] w = (Inr [], w) \<and>
   calls (db (snd (get_random_departments 0 w))) = calls (db w) \<and>
   calls (db (snd (get_random_employees amount [] w))) = calls (db w)"
  by (simp add: get_random_departments_def get_random_employees_def)

text \<open>
  C10: for a negative count both generators return the empty list, raise nothing and
  leave the environment (the log of database calls with it) as it was, whatever the
  list of departments is: a negative count is treated like zero.
\<close>

theorem negative_amount:
  assumes "amount < 0"
  shows "get_random_departments amount w = (Inr [], w) \<and>
         get_random_employees amount departments w = (Inr [], w) \<and>
         calls (db (snd (get_random_departments amount w))) = calls (db w) \<and>
         calls (db (snd (get_random_employees amount departments w))) = calls (db w)"
  using assms by (simp add: get_random_departments_def get_random_employees_def)

theorem negative_amount_witness:
  "(- 3 :: int) < 0 \<and>
   get_random_departments (- 3) example_world = (Inr [], example_world) \<and>
   get_random_employees (- 3) [Department ''Sales'' (Some 1)] example_world =
     (Inr [], example_world)"
  using negative_amount [of "- 3" example_world "[Department ''Sales'' (Some 1)]"] by simp

section \<open>Salaries\<close>

lemma randint_residue:
  assumes "a \<le> v" and "v \<le> b"
  shows "\<exists>!r. r < nat (b - a + 1) \<and>
              fst (randint a b (w\<lparr>random_src := (\<lambda>n. r)\<rparr>)) = Inr v"
proof (rule ex1I [of _ "nat (v - a)"])
  from assms show "nat (v - a) < nat (b - a + 1) \<and>
      fst (randint a b (w\<lparr>random_src := (\<lambda>n. nat (v - a))\<rparr>)) = Inr v"
    by (simp add: randint_def)
next
  fix r
  assume "r < nat (b - a + 1) \<and> fst (randint a b (w\<lparr>random_src := (\<lambda>n. r)\<rparr>)) = Inr v"
  then have "r mod nat (b - a + 1) = r" and "a + int (r mod nat (b - a + 1)) = v"
    using assms by (auto simp: randint_def split: if_splits)
  then show "r = nat (v - a)" by simp
qed

lemma new_employee_salary:
  assumes "new_employee departments employees w = (Inr e, w')"
  shows "20000 \<le> salary e \<and> salary e \<le> 100001"
proof -
  from new_employee_Inr [OF assms] obtain dept chf nm sal w3 w4 where
    1: "randint 20000 100001 w3 = (Inr sal, w4)" and
    2: "Employee_init dept chf nm sal w4 = (Inr e, w')"
    by blast
  from Employee_init_Inr [OF 2] have "salary e = sal" by auto
  with randint_Inr [OF 1] show ?thesis by simp
qed

lemma get_random_employees_salary:
  assumes "get_random_employees amount departments w = (Inr es, w')"
  shows "\<forall>e\<in>set es. 20000 \<le> salary e \<and> salary e \<le> 100001"
proof (cases "length departments < 1")
  case True
  with assms show ?thesis by (simp add: get_random_employees_def)
next
  case False
  with assms have l: "employees_loop (nat amount) departments [] w = (Inr es, w')"
    by (simp add: get_random_employees_def)
  show ?thesis
    by (rule employees_loop_invariant
          [OF l, where I = "\<lambda>es w. \<forall>e\<in>set es. 20000 \<le> salary e \<and> salary e \<le> 100001"])
       (auto dest: new_employee_salary)
qed

lemma salary_run:
  assumes "20000 \<le> s" and "s \<le> 100001"
  shows "fst (create_fake_data 1 1 (ready_world\<lparr>random_src := (\<lambda>n. nat (s - 20000))\<rparr>)) =
           Inr ([Department ''Phrase x'' (Some 1)],
                [Employee (Department ''Phrase x'' (Some 1)) None ''Name xx'' s (Some 1)])"
proof -
  from assms have "nat (s - 20000) mod 80002 = nat (s - 20000)" by simp
  with assms show ?thesis
    by (simp add: ready_world_eq run_defs example_library_def shorten_examples)
qed

text \<open>
  C3, as the specification states it, does not hold: with the draws of
  \<open>top_draws_world\<close> the generator creates an employee whose salary is 100001.
\<close>

theorem salary_100001_generated:
  "fst (create_fake_data 1 1 top_draws_world) =
     Inr ([Department ''Phrase x'' (Some 1)],
          [Employee (Department ''Phrase x'' (Some 1)) None ''Name xx'' 100001 (Some 1)])"
  by (simp add: top_draws_world_def ready_world_eq run_defs example_library_def shorten_examples)

text \<open>
  C3, amended: the salary of every generated employee is an integer from 20000 to
  100001, both ends included. The generator returns as many employees as it was asked
  for, and the salary of the \<open>k\<close>-th of them is the value of
  \<open>random.randint(20000, 100001)\<close> at the draw made for it (draw number \<open>3 * k + 1\<close> of
  the call), that is 20000 plus the raw draw modulo 80002. \<open>randint\<close> reaches each of
  these 80002 values from exactly one of the 80002 residues of the raw draw (the
  uniform choice), and each of them, 100001 too, is the salary of the employee of a
  run of the generator.
\<close>

theorem salary_range:
  "(get_random_employees amount departments w = (Inr es, w') \<longrightarrow>
      length es = (if departments = [] then 0 else nat amount) \<and>
      (\<forall>k<length es.
         salary (es ! k) = 20000 + int (random_src w (random_pos w + 3 * k + 1) mod 80002) \<and>
         fst (randint 20000 100001 (w\<lparr>random_pos := random_pos w + 3 * k + 1\<rparr>)) =
           Inr (salary (es ! k))) \<and>
      (\<forall>e\<in>set es. 20000 \<le> salary e \<and> salary e \<le> 100001)) \<and>
   (20000 \<le> s \<and> s \<le> 100001 \<longrightarrow>
      (\<exists>!r. r < 80002 \<and>
            fst (randint 20000 100001 (w\<lparr>random_src := (\<lambda>n. r)\<rparr>)) = Inr s) \<and>
      map salary (snd (projr (fst (create_fake_data 1 1
        (ready_world\<lparr>random_src := (\<lambda>n. nat (s - 20000))\<rparr>))))) = [s])"
  using get_random_employees_salary [of amount departments w es w']
    get_random_employees_length [of amount departments w es w']
    get_random_employees_salaries [of amount departments w es w']
    randint_residue [of 20000 s 100001 w] salary_run [of s]
  by simp

theorem salary_range_witness:
  "fst (get_random_employees 2 [sales] staff_world) =
     Inr [Employee sales None ''Name x'' 20002 (Some 3),
          Employee sales None ''Name xx'' 20005 (Some 4)] \<and>
   length (projr (fst (get_random_employees 2 [sales] staff_world))) = 2 \<and>
   map salary (projr (fst (get_random_employees 2 [sales] staff_world))) =
     [20000 + int (random_src staff_world 1 mod 80002),
      20000 + int (random_src staff_world 4 mod 80002)] \<and>
   list_all (\<lambda>e. 20000 \<le> salary e \<and> salary e \<le> 100001)
     (projr (fst (get_random_employees 2 [sales] staff_world))) \<and>
   (20000 :: int) \<le> 100001 \<and>
   map salary (snd (projr (fst (create_fake_data 1 1
     (ready_world\<lparr>random_src := (\<lambda>n. nat (100001 - 20000))\<rparr>))))) = [100001]"
  using salary_range [of 2 "[sales]" staff_world
     "projr (fst (get_random_employees 2 [sales] staff_world))"
     "snd (get_random_employees 2 [sales] staff_world)" 100001]
  by (simp add: staff_world_def sales_def ready_world_eq run_defs example_library_def
        shorten_examples loop_numeral)

section \<open>The choice of the chief\<close>

lemma choose_chief_pos_draw:
  assumes "employees \<noteq> []"
  shows "choose_chief_pos employees w =
           (Inr (- 1 + int (random_src w (random_pos w) mod (length employees + 1))),
            w\<lparr>random_pos := random_pos w + 1\<rparr>)"
proof -
  have "nat (int (length employees) - 1 - - 1 + 1) = length employees + 1" by simp
  with assms show ?thesis by (simp add: choose_chief_pos_def randint_def)
qed

lemma choose_chief_pos_residue:
  assumes "employees \<noteq> []" and "- 1 \<le> pos" and "pos \<le> int (length employees) - 1"
  shows "\<exists>!r. r < length employees + 1 \<and>
              fst (choose_chief_pos employees (w\<lparr>random_src := (\<lambda>n. r)\<rparr>)) = Inr pos"
proof -
  have n: "nat (int (length employees) - 1 - - 1 + 1) = length employees + 1" by simp
  from assms(1) have c: "\<And>w. choose_chief_pos employees w =
      randint (- 1) (int (length employees) - 1) w"
    by (simp add: choose_chief_pos_def)
  from randint_residue [OF assms(2,3), of w] show ?thesis unfolding c n .
qed

lemma new_employee_chief:
  assumes "new_employee departments employees w = (Inr e, w')"
  shows "\<exists>pos w2. choose_chief_pos employees (w\<lparr>random_pos := random_pos w + 1\<rparr>) = (Inr pos, w2) \<and>
           - 1 \<le> pos \<and> pos \<le> int (length employees) - 1 \<and>
           chief_at employees pos = Inr (chief e) \<and>
           chief e = (if pos = - 1 then None else Some (employees ! nat pos))"
proof -
  from new_employee_Inr [OF assms] obtain department_pos chief_pos nm sal w1 w2 w4 where
    1: "randint 0 (int (length departments) - 1) w = (Inr department_pos, w1)" and
    2: "choose_chief_pos employees w1 = (Inr chief_pos, w2)" and
    3: "Employee_init (departments ! nat department_pos)
          (if chief_pos = - 1 then None else Some (employees ! nat chief_pos)) nm sal w4 =
          (Inr e, w')"
    by blast
  from randint_Inr [OF 1] have w1: "w1 = w\<lparr>random_pos := random_pos w + 1\<rparr>" by simp
  from Employee_init_Inr [OF 3]
  have c: "chief e = (if chief_pos = - 1 then None else Some (employees ! nat chief_pos))"
    by auto
  from choose_chief_pos_Inr [OF 2]
  have r: "- 1 \<le> chief_pos" "chief_pos \<le> int (length employees) - 1" by simp_all
  from chief_at_range [OF r] c have "chief_at employees chief_pos = Inr (chief e)" by simp
  with 2 w1 r c show ?thesis by blast
qed

lemma get_random_employees_chiefs:
  assumes "get_random_employees amount departments w = (Inr es, w')"
  shows "\<forall>k<length es. \<exists>pos.
           pos = (if k = 0 then - 1
                  else - 1 + int (random_src w (random_pos w + 3 * k) mod (k + 1))) \<and>
           fst (choose_chief_pos (take k es) (w\<lparr>random_pos := random_pos w + 3 * k\<rparr>)) = Inr pos \<and>
           - 1 \<le> pos \<and> pos \<le> int k - 1 \<and>
           chief_at (take k es) pos = Inr (chief (es ! k)) \<and>
           chief (es ! k) = (if pos = - 1 then None else Some (es ! nat pos))"
proof (intro allI impI)
  fix k assume k: "k < length es"
  define rr where "rr = random_src w (random_pos w + 3 * k) mod (k + 1)"
  define pos where "pos = (if k = 0 then - 1 else - 1 + int rr)"
  from k have len: "length (take k es) = k" by simp
  from get_random_employees_draws [OF assms] k
  have ch: "chief (es ! k) = (if k = 0 \<or> rr = 0 then None else Some (take k es ! (rr - 1)))"
    unfolding rr_def by blast
  have r: "rr < k + 1" unfolding rr_def by (rule mod_less_divisor) simp
  then have range: "- 1 \<le> pos" "pos \<le> int k - 1" unfolding pos_def by simp_all
  from len have e: "take k es = [] \<longleftrightarrow> k = 0" by (metis length_0_conv)
  have c: "fst (choose_chief_pos (take k es) (w\<lparr>random_pos := random_pos w + 3 * k\<rparr>)) = Inr pos"
    unfolding choose_chief_pos_value e len pos_def rr_def by simp
  have v: "chief (es ! k) = (if pos = - 1 then None else Some (es ! nat pos))"
  proof (cases "k = 0 \<or> rr = 0")
    case True
    with ch show ?thesis unfolding pos_def by auto
  next
    case False
    then have "pos \<noteq> - 1" and n: "nat pos = rr - 1" unfolding pos_def by simp_all
    moreover from False r have "rr - 1 < k" by linarith
    then have "take k es ! (rr - 1) = es ! (rr - 1)" by simp
    ultimately show ?thesis using ch False by simp
  qed
  have t: "chief_at (take k es) pos = Inr (if pos = - 1 then None else Some (take k es ! nat pos))"
    by (rule chief_at_range) (use range len in simp_all)
  have "chief_at (take k es) pos = Inr (chief (es ! k))"
  proof (cases "pos = - 1")
    case True
    with t v show ?thesis by simp
  next
    case False
    with range have "nat pos < k" by linarith
    then have "take k es ! nat pos = es ! nat pos" by simp
    with t v False show ?thesis by simp
  qed
  with c range v have "pos = pos \<and>
           fst (choose_chief_pos (take k es) (w\<lparr>random_pos := random_pos w + 3 * k\<rparr>)) = Inr pos \<and>
           - 1 \<le> pos \<and> pos \<le> int k - 1 \<and>
           chief_at (take k es) pos = Inr (chief (es ! k)) \<and>
           chief (es ! k) = (if pos = - 1 then None else Some (es ! nat pos))"
    by blast
  then show "\<exists>pos.
           pos = (if k = 0 then - 1
                  else - 1 + int (random_src w (random_pos w + 3 * k) mod (k + 1))) \<and>
           fst (choose_chief_pos (take k es) (w\<lparr>random_pos := random_pos w + 3 * k\<rparr>)) = Inr pos \<and>
           - 1 \<le> pos \<and> pos \<le> int k - 1 \<and>
           chief_at (take k es) pos = Inr (chief (es ! k)) \<and>
           chief (es ! k) = (if pos = - 1 then None else Some (es ! nat pos))"
    using pos_def [unfolded rr_def] by blast
qed

lemma get_random_employees_chief_residue:
  assumes "k < length es" and "0 < k" and "- 1 \<le> i" and "i \<le> int k - 1"
  shows "\<exists>!r. r < k + 1 \<and>
              fst (choose_chief_pos (take k es) (w\<lparr>random_src := (\<lambda>n. r)\<rparr>)) = Inr i"
proof -
  from assms(1) have len: "length (take k es) = k" by simp
  with assms(2) have ne: "take k es \<noteq> []" by auto
  from assms(3,4) len have "i \<le> int (length (take k es)) - 1" by simp
  from choose_chief_pos_residue [OF ne assms(3) this, of w] show ?thesis unfolding len .
qed

text \<open>
  C2: the generator returns as many employees as it was asked for, and the chief of
  the \<open>k\<close>-th of them is chosen among the \<open>k\<close> employees that the run has generated
  before it, \<open>take k es\<close>. While there is none (\<open>k = 0\<close>) the chief index is \<open>-1\<close> without a
  draw and the employee has no chief. Otherwise the index is the value of
  \<open>random.randint(-1, k - 1)\<close> at the draw made for it (draw number \<open>3 * k\<close> of the call),
  that is \<open>-1\<close> plus the raw draw modulo \<open>k + 1\<close>, an integer from \<open>-1\<close> to \<open>k - 1\<close>; \<open>-1\<close>
  gives no chief and an index \<open>i\<close> from 0 gives the \<open>i\<close>-th employee generated before.
  Each index of the range is the image of exactly one of the \<open>k + 1\<close> residues of the
  raw draw, which is the uniform choice. The same holds for one pass through the
  body of the loop with any list of employees.
\<close>

theorem chief_choice:
  "(get_random_employees amount departments w = (Inr es, w') \<longrightarrow>
      length es = (if departments = [] then 0 else nat amount) \<and>
      (\<forall>k<length es. \<exists>pos.
         pos = (if k = 0 then - 1
                else - 1 + int (random_src w (random_pos w + 3 * k) mod (k + 1))) \<and>
         fst (choose_chief_pos (take k es) (w\<lparr>random_pos := random_pos w + 3 * k\<rparr>)) = Inr pos \<and>
         - 1 \<le> pos \<and> pos \<le> int k - 1 \<and>
         chief_at (take k es) pos = Inr (chief (es ! k)) \<and>
         chief (es ! k) = (if pos = - 1 then None else Some (es ! nat pos)))) \<and>
   (k < length es \<and> 0 < k \<and> - 1 \<le> i \<and> i \<le> int k - 1 \<longrightarrow>
      (\<exists>!r. r < k + 1 \<and>
            fst (choose_chief_pos (take k es) (w\<lparr>random_src := (\<lambda>n. r)\<rparr>)) = Inr i)) \<and>
   choose_chief_pos [] w = (Inr (- 1), w) \<and> chief_at employees (- 1) = Inr None \<and>
   (employees \<noteq> [] \<longrightarrow>
      (\<exists>pos. choose_chief_pos employees w = (Inr pos, w\<lparr>random_pos := random_pos w + 1\<rparr>) \<and>
             pos = - 1 + int (random_src w (random_pos w) mod (length employees + 1)) \<and>
             - 1 \<le> pos \<and> pos \<le> int (length employees) - 1)) \<and>
   (- 1 \<le> i \<and> i \<le> int (length employees) - 1 \<longrightarrow>
      chief_at employees i = Inr (if i = - 1 then None else Some (employees ! nat i))) \<and>
   (employees \<noteq> [] \<and> - 1 \<le> i \<and> i \<le> int (length employees) - 1 \<longrightarrow>
      (\<exists>!r. r < length employees + 1 \<and>
            fst (choose_chief_pos employees (w\<lparr>random_src := (\<lambda>n. r)\<rparr>)) = Inr i)) \<and>
   (new_employee departments employees w = (Inr e, w') \<longrightarrow>
      (\<exists>pos w2. choose_chief_pos employees (w\<lparr>random_pos := random_pos w + 1\<rparr>) =
                   (Inr pos, w2) \<and>
                 - 1 \<le> pos \<and> pos \<le> int (length employees) - 1 \<and>
                 chief_at employees pos = Inr (chief e) \<and>
                 chief e = (if pos = - 1 then None else Some (employees ! nat pos))))"
proof -
  have a: "get_random_employees amount departments w = (Inr es, w') \<longrightarrow>
      length es = (if departments = [] then 0 else nat amount) \<and>
      (\<forall>k<length es. \<exists>pos.
         pos = (if k = 0 then - 1
                else - 1 + int (random_src w (random_pos w + 3 * k) mod (k + 1))) \<and>
         fst (choose_chief_pos (take k es) (w\<lparr>random_pos := random_pos w + 3 * k\<rparr>)) = Inr pos \<and>
         - 1 \<le> pos \<and> pos \<le> int k - 1 \<and>
         chief_at (take k es) pos = Inr (chief (es ! k)) \<and>
         chief (es ! k) = (if pos = - 1 then None else Some (es ! nat pos)))"
    using get_random_employees_length [of amount departments w es w']
      get_random_employees_chiefs [of amount departments w es w'] by blast
  have b: "k < length es \<and> 0 < k \<and> - 1 \<le> i \<and> i \<le> int k - 1 \<longrightarrow>
      (\<exists>!r. r < k + 1 \<and>
            fst (choose_chief_pos (take k es) (w\<lparr>random_src := (\<lambda>n. r)\<rparr>)) = Inr i)"
    using get_random_employees_chief_residue [of k es i w] by blast
  have c: "choose_chief_pos [] w = (Inr (- 1), w) \<and> chief_at employees (- 1) = Inr None"
    by (simp add: choose_chief_pos_def chief_at_def)
  have d: "employees \<noteq> [] \<longrightarrow>
      (\<exists>pos. choose_chief_pos employees w = (Inr pos, w\<lparr>random_pos := random_pos w + 1\<rparr>) \<and>
             pos = - 1 + int (random_src w (random_pos w) mod (length employees + 1)) \<and>
             - 1 \<le> pos \<and> pos \<le> int (length employees) - 1)"
  proof
    assume ne: "employees \<noteq> []"
    define rr where "rr = random_src w (random_pos w) mod (length employees + 1)"
    have "rr < length employees + 1" unfolding rr_def by (rule mod_less_divisor) simp
    then have "- 1 \<le> - 1 + int rr \<and> - 1 + int rr \<le> int (length employees) - 1" by simp
    with choose_chief_pos_draw [OF ne, of w]
    show "\<exists>pos. choose_chief_pos employees w = (Inr pos, w\<lparr>random_pos := random_pos w + 1\<rparr>) \<and>
             pos = - 1 + int (random_src w (random_pos w) mod (length employees + 1)) \<and>
             - 1 \<le> pos \<and> pos \<le> int (length employees) - 1"
      unfolding rr_def by blast
  qed
  have e: "- 1 \<le> i \<and> i \<le> int (length employees) - 1 \<longrightarrow>
      chief_at employees i = Inr (if i = - 1 then None else Some (employees ! nat i))"
    using chief_at_range [of i employees] by blast
  have f: "employees \<noteq> [] \<and> - 1 \<le> i \<and> i \<le> int (length employees) - 1 \<longrightarrow>
      (\<exists>!r. r < length employees + 1 \<and>
            fst (choose_chief_pos employees (w\<lparr>random_src := (\<lambda>n. r)\<rparr>)) = Inr i)"
    using choose_chief_pos_residue [of employees i w] by blast
  have g: "new_employee departments employees w = (Inr e, w') \<longrightarrow>
      (\<exists>pos w2. choose_chief_pos employees (w\<lparr>random_pos := random_pos w + 1\<rparr>) =
                   (Inr pos, w2) \<and>
                 - 1 \<le> pos \<and> pos \<le> int (length employees) - 1 \<and>
                 chief_at employees pos = Inr (chief e) \<and>
                 chief e = (if pos = - 1 then None else Some (employees ! nat pos)))"
    using new_employee_chief [of departments employees w e w'] by blast
  from a b c d e f g show ?thesis by blast
qed

lemma staff_run_eq:
  "fst staff_run =
     Inr [Employee sales None ''Name x'' 20001 (Some 3),
          Employee sales (Some (Employee sales None ''Name x'' 20001 (Some 3)))
            ''Name xx'' 20004 (Some 4)]"
  by (simp add: staff_run_def staff_world_def sales_def ready_world_eq run_defs
        example_library_def shorten_examples loop_numeral)

theorem chief_choice_witness:
  "fst staff_run =
     Inr [Employee sales None ''Name x'' 20001 (Some 3),
          Employee sales (Some (Employee sales None ''Name x'' 20001 (Some 3)))
            ''Name xx'' 20004 (Some 4)] \<and>
   length (projr (fst staff_run)) = 2 \<and>
   fst (choose_chief_pos (take 1 (projr (fst staff_run)))
          (staff_world\<lparr>random_src := (\<lambda>n. n), random_pos := 3\<rparr>)) = Inr 0 \<and>
   chief_at (take 1 (projr (fst staff_run))) 0 = Inr (chief (projr (fst staff_run) ! 1)) \<and>
   chief (projr (fst staff_run) ! 1) = Some (projr (fst staff_run) ! 0) \<and>
   staff \<noteq> [] \<and>
   choose_chief_pos staff staff_world = (Inr 0, staff_world\<lparr>random_pos := 1\<rparr>) \<and>
   chief_at staff 1 = Inr (Some (staff ! 1)) \<and>
   fst (new_employee [sales] staff staff_world) =
     Inr (Employee sales (Some (staff ! 1)) ''Name x'' 20003 (Some 3))"
proof -
  have h: "get_random_employees 2 [sales] (staff_world\<lparr>random_src := (\<lambda>n. n)\<rparr>) =
             (Inr (projr (fst staff_run)), snd staff_run)"
    using staff_run_eq by (simp add: staff_run_def prod_eq_iff)
  note t = chief_choice [where amount = 2 and departments = "[sales]"
      and w = "staff_world\<lparr>random_src := (\<lambda>n. n)\<rparr>"
      and es = "projr (fst staff_run)" and w' = "snd staff_run",
      THEN conjunct1, rule_format, OF h]
  from t have l: "length (projr (fst staff_run)) = 2" by simp
  have a: "fst (choose_chief_pos (take 1 (projr (fst staff_run)))
               (staff_world\<lparr>random_src := (\<lambda>n. n), random_pos := 3\<rparr>)) = Inr 0 \<and>
     chief_at (take 1 (projr (fst staff_run))) 0 = Inr (chief (projr (fst staff_run) ! 1)) \<and>
     chief (projr (fst staff_run) ! 1) = Some (projr (fst staff_run) ! 0)"
    by (simp add: staff_run_eq staff_world_def choose_chief_pos_def randint_def chief_at_def
          getitem_def)
  have b: "staff \<noteq> [] \<and>
     choose_chief_pos staff staff_world = (Inr 0, staff_world\<lparr>random_pos := 1\<rparr>) \<and>
     chief_at staff 1 = Inr (Some (staff ! 1)) \<and>
     fst (new_employee [sales] staff staff_world) =
       Inr (Employee sales (Some (staff ! 1)) ''Name x'' 20003 (Some 3))"
    by (simp add: staff_world_def staff_def sales_def ready_world_eq run_defs
          example_library_def shorten_examples)
  from staff_run_eq l a b show ?thesis by blast
qed

section \<open>Saving an entity twice\<close>

lemma cursor_execute_calls:
  "calls (db (snd (cursor_execute st w))) = calls (db w) @ [Execute st]"
  by (auto simp: cursor_execute_def db_execute_def Let_def split: option.splits dest: run_sql_log)

lemma conn_commit_calls: "calls (db (snd (conn_commit w))) = calls (db w) @ [Commit]"
  by (simp add: conn_commit_def db_commit_def Let_def)

lemma fetchone_0_calls: "calls (db (snd (fetchone_0 w))) = calls (db w) @ [Fetchone]"
  by (simp add: fetchone_0_def db_fetchone_def Let_def split: list.splits)

lemma Department_save_persistent:
  assumes "id_d d = Some i"
  shows "fst (snd (Department_save d w)) = d \<and>
         (calls (db (snd (snd (Department_save d w)))) =
            calls (db w) @ [Execute (UPDATE_department (name_d d) i)] \<or>
          calls (db (snd (snd (Department_save d w)))) =
            calls (db w) @ [Execute (UPDATE_department (name_d d) i), Commit])"
proof (cases "cursor_execute (UPDATE_department (name_d d) i) w")
  case (Pair r w1)
  from cursor_execute_calls [of "UPDATE_department (name_d d) i" w] Pair
  have c1: "calls (db w1) = calls (db w) @ [Execute (UPDATE_department (name_d d) i)]" by simp
  show ?thesis
  proof (cases r)
    case (Inl e)
    with Pair assms c1 show ?thesis by (simp add: Department_save_def)
  next
    case (Inr u)
    from conn_commit_calls [of w1] c1
    have "calls (db (snd (conn_commit w1))) =
        calls (db w) @ [Execute (UPDATE_department (name_d d) i), Commit]" by simp
    with Pair Inr assms show ?thesis
      by (auto simp: Department_save_def split: prod.splits)
  qed
qed

lemma Employee_save_persistent:
  assumes "id_e e = Some i"
  shows "fst (snd (Employee_save e w)) = e \<and>
         (calls (db (snd (snd (Employee_save e w)))) =
            calls (db w) @ [Execute (UPDATE_employee (id_d (department e)) (chief_id e)
                                       (name_e e) (salary e) i)] \<or>
          calls (db (snd (snd (Employee_save e w)))) =
            calls (db w) @ [Execute (UPDATE_employee (id_d (department e)) (chief_id e)
                                       (name_e e) (salary e) i), Commit])"
proof (cases "cursor_execute (UPDATE_employee (id_d (department e)) (chief_id e)
                                (name_e e) (salary e) i) w")
  case (Pair r w1)
  let ?st = "UPDATE_employee (id_d (department e)) (chief_id e) (name_e e) (salary e) i"
  from cursor_execute_calls [of ?st w] Pair
  have c1: "calls (db w1) = calls (db w) @ [Execute ?st]" by simp
  show ?thesis
  proof (cases r)
    case (Inl x)
    with Pair assms c1 show ?thesis by (simp add: Employee_save_def)
  next
    case (Inr u)
    from conn_commit_calls [of w1] c1
    have "calls (db (snd (conn_commit w1))) = calls (db w) @ [Execute ?st, Commit]" by simp
    with Pair Inr assms show ?thesis
      by (auto simp: Employee_save_def split: prod.splits)
  qed
qed

lemma Department_save_again:
  assumes "id_d d = None" and "Department_save d w = (Inr u1, d1, w1)"
    and "Department_save (Department name2 (id_d d1)) wx = (Inr u2, d2, w2)"
  shows "\<exists>rows. department_tbl (db wx) = Some rows \<and>
           d2 = Department name2 (Some (department_ident (db w))) \<and>
           department_tbl (db w2) =
             Some (map (\<lambda>(j, n). if j = department_ident (db w) then (j, name2) else (j, n)) rows) \<and>
           department_ident (db w2) = department_ident (db wx) \<and>
           calls (db w2) =
             calls (db wx) @ [Execute (UPDATE_department name2 (department_ident (db w))), Commit]"
proof -
  from Department_save_insert [OF assms(1,2)]
  have "d1 = Department (name_d d) (Some (department_ident (db w)))" by blast
  then have i: "id_d (Department name2 (id_d d1)) = Some (department_ident (db w))"
    and d1: "id_d d1 = Some (department_ident (db w))" by simp_all
  from Department_save_update [OF i assms(3), unfolded Department.sel d1] show ?thesis by auto
qed

lemma Employee_save_again:
  assumes "id_e e = None" and "Employee_save e w = (Inr u1, e1, w1)"
    and "Employee_save (Employee dept2 chf2 name2 sal2 (id_e e1)) wx = (Inr u2, e2, w2)"
  shows "\<exists>rows dp2. employee_tbl (db wx) = Some rows \<and> id_d dept2 = Some dp2 \<and>
           e2 = Employee dept2 chf2 name2 sal2 (Some (employee_ident (db w))) \<and>
           employee_tbl (db w2) =
             Some (map (\<lambda>(j, r). if j = employee_ident (db w)
                                  then (j, dp2, chief_id e2, name2, sal2) else (j, r)) rows) \<and>
           employee_ident (db w2) = employee_ident (db wx) \<and>
           calls (db w2) =
             calls (db wx) @
             [Execute (UPDATE_employee (Some dp2) (chief_id e2) name2 sal2 (employee_ident (db w))),
              Commit]"
proof -
  from Employee_save_insert [OF assms(1,2)]
  have "e1 = Employee (department e) (chief e) (name_e e) (salary e) (Some (employee_ident (db w)))"
    by blast
  then have d1: "id_e e1 = Some (employee_ident (db w))" by simp
  let ?e = "Employee dept2 chf2 name2 sal2 (Some (employee_ident (db w)))"
  from assms(3) d1 have s: "Employee_save ?e wx = (Inr u2, e2, w2)" by simp
  have i: "id_e ?e = Some (employee_ident (db w))" by simp
  from Employee_save_update [OF i s, unfolded Employee.sel] obtain rows dp2 where
    r: "employee_tbl (db wx) = Some rows" and d: "id_d dept2 = Some dp2" and e2: "e2 = ?e" and
    w2: "w2 = wx\<lparr>db := (db wx)\<lparr>
           employee_tbl :=
             Some (map (\<lambda>(j, r). if j = employee_ident (db w)
                                  then (j, dp2, chief_id ?e, name2, sal2) else (j, r)) rows),
           calls := calls (db wx) @
             [Execute (UPDATE_employee (Some dp2) (chief_id ?e) name2 sal2 (employee_ident (db w))),
              Commit]\<rparr>\<rparr>"
    by blast
  note w2' = w2 [folded e2]
  from r d e2 w2' show ?thesis by simp
qed

text \<open>
  C5: a department or an employee without an id that \<open>save\<close> stores is stored by one
  \<open>INSERT\<close>, followed by \<open>SELECT @@IDENTITY\<close>, the fetch of its row and a commit, and
  its id is then the identity that the database assigned to the new row. A \<open>save\<close> of
  an entity that has an id, in whatever state the database is by then, issues one
  \<open>UPDATE\<close> keyed by that id and, when the statement is accepted, a commit, and never
  an \<open>INSERT\<close>: the entity and its id stay as they are, and when \<open>save\<close> returns the
  table has the same rows as before except that the rows with that id hold the fields
  of the entity. So an entity stored by a first \<open>save\<close> is updated under the id of that
  first \<open>save\<close> by every later one.
\<close>

theorem save_round_trip:
  "(id_d d = None \<and> Department_save d w = (Inr u, d', w') \<longrightarrow>
      (\<exists>rows. department_tbl (db w) = Some rows \<and>
         d' = Department (name_d d) (Some (department_ident (db w))) \<and>
         w' = w\<lparr>db := (db w)\<lparr>
                department_tbl := Some (rows @ [(department_ident (db w), name_d d)]),
                department_ident := department_ident (db w) + 1,
                last_identity := Some (department_ident (db w)),
                result_rows := [],
                calls := calls (db w) @
                  [Execute (INSERT_department (name_d d)), Execute SELECT_IDENTITY,
                   Fetchone, Commit]\<rparr>\<rparr>)) \<and>
   (id_d d = Some i \<and> Department_save d w = (Inr u, d', w') \<longrightarrow>
      (\<exists>rows. department_tbl (db w) = Some rows \<and> d' = d \<and>
         w' = w\<lparr>db := (db w)\<lparr>
                department_tbl :=
                  Some (map (\<lambda>(j, n). if j = i then (j, name_d d) else (j, n)) rows),
                calls := calls (db w) @ [Execute (UPDATE_department (name_d d) i), Commit]\<rparr>\<rparr>)) \<and>
   (id_d d = Some i \<longrightarrow>
      fst (snd (Department_save d w)) = d \<and>
      (calls (db (snd (snd (Department_save d w)))) =
         calls (db w) @ [Execute (UPDATE_department (name_d d) i)] \<or>
       calls (db (snd (snd (Department_save d w)))) =
         calls (db w) @ [Execute (UPDATE_department (name_d d) i), Commit])) \<and>
   (id_d d = None \<and> Department_save d w = (Inr u, d', w') \<and>
    Department_save (Department name2 (id_d d')) wx = (Inr u2, d2, w2) \<longrightarrow>
      (\<exists>rows. department_tbl (db wx) = Some rows \<and>
         d2 = Department name2 (Some (department_ident (db w))) \<and>
         department_tbl (db w2) =
           Some (map (\<lambda>(j, n). if j = department_ident (db w) then (j, name2) else (j, n)) rows) \<and>
         department_ident (db w2) = department_ident (db wx) \<and>
         calls (db w2) =
           calls (db wx) @ [Execute (UPDATE_department name2 (department_ident (db w))), Commit])) \<and>
   (id_e e = None \<and> Employee_save e v = (Inr x, e', v') \<longrightarrow>
      (\<exists>rows dept_id.
         employee_tbl (db v) = Some rows \<and> id_d (department e) = Some dept_id \<and>
         employee_row_ok (db v) (Some dept_id) (chief_id e) (name_e e) (salary e) \<and>
         e' = Employee (department e) (chief e) (name_e e) (salary e)
                (Some (employee_ident (db v))) \<and>
         v' = v\<lparr>db := (db v)\<lparr>
                employee_tbl := Some (rows @ [(employee_ident (db v), dept_id, chief_id e,
                                                name_e e, salary e)]),
                employee_ident := employee_ident (db v) + 1,
                last_identity := Some (employee_ident (db v)),
                result_rows := [],
                calls := calls (db v) @
                  [Execute (INSERT_employee (Some dept_id) (chief_id e) (name_e e) (salary e)),
                   Execute SELECT_IDENTITY, Fetchone, Commit]\<rparr>\<rparr>)) \<and>
   (id_e e = Some i \<and> Employee_save e v = (Inr x, e', v') \<longrightarrow>
      (\<exists>rows dept_id.
         employee_tbl (db v) = Some rows \<and> id_d (department e) = Some dept_id \<and> e' = e \<and>
         v' = v\<lparr>db := (db v)\<lparr>
                employee_tbl :=
                  Some (map (\<lambda>(j, r). if j = i then (j, dept_id, chief_id e, name_e e, salary e)
                                       else (j, r)) rows),
                calls := calls (db v) @
                  [Execute (UPDATE_employee (Some dept_id) (chief_id e) (name_e e) (salary e) i),
                   Commit]\<rparr>\<rparr>)) \<and>
   (id_e e = Some i \<longrightarrow>
      fst (snd (Employee_save e v)) = e \<and>
      (calls (db (snd (snd (Employee_save e v)))) =
         calls (db v) @ [Execute (UPDATE_employee (id_d (department e)) (chief_id e)
                                    (name_e e) (salary e) i)] \<or>
       calls (db (snd (snd (Employee_save e v)))) =
         calls (db v) @ [Execute (UPDATE_employee (id_d (department e)) (chief_id e)
                                    (name_e e) (salary e) i), Commit])) \<and>
   (id_e e = None \<and> Employee_save e v = (Inr x, e', v') \<and>
    Employee_save (Employee dept2 chf2 nm2 sal2 (id_e e')) vx = (Inr x2, e2, v2) \<longrightarrow>
      (\<exists>rows dp2. employee_tbl (db vx) = Some rows \<and> id_d dept2 = Some dp2 \<and>
         e2 = Employee dept2 chf2 nm2 sal2 (Some (employee_ident (db v))) \<and>
         employee_tbl (db v2) =
           Some (map (\<lambda>(j, r). if j = employee_ident (db v)
                                then (j, dp2, chief_id e2, nm2, sal2) else (j, r)) rows) \<and>
         employee_ident (db v2) = employee_ident (db vx) \<and>
         calls (db v2) =
           calls (db vx) @
           [Execute (UPDATE_employee (Some dp2) (chief_id e2) nm2 sal2 (employee_ident (db v))),
            Commit]))"
proof -
  have a: "(id_d d = None \<and> Department_save d w = (Inr u, d', w') \<longrightarrow>
      (\<exists>rows. department_tbl (db w) = Some rows \<and>
         d' = Department (name_d d) (Some (department_ident (db w))) \<and>
         w' = w\<lparr>db := (db w)\<lparr>
                department_tbl := Some (rows @ [(department_ident (db w), name_d d)]),
                department_ident := department_ident (db w) + 1,
                last_identity := Some (department_ident (db w)),
                result_rows := [],
                calls := calls (db w) @
                  [Execute (INSERT_department (name_d d)), Execute SELECT_IDENTITY,
                   Fetchone, Commit]\<rparr>\<rparr>))"
    using Department_save_insert [of d w u d' w'] by blast
  have b: "(id_d d = Some i \<and> Department_save d w = (Inr u, d', w') \<longrightarrow>
      (\<exists>rows. department_tbl (db w) = Some rows \<and> d' = d \<and>
         w' = w\<lparr>db := (db w)\<lparr>
                department_tbl :=
                  Some (map (\<lambda>(j, n). if j = i then (j, name_d d) else (j, n)) rows),
                calls := calls (db w) @ [Execute (UPDATE_department (name_d d) i), Commit]\<rparr>\<rparr>))"
    using Department_save_update [of d i w u d' w'] by blast
  have c: "(id_d d = Some i \<longrightarrow>
      fst (snd (Department_save d w)) = d \<and>
      (calls (db (snd (snd (Department_save d w)))) =
         calls (db w) @ [Execute (UPDATE_department (name_d d) i)] \<or>
       calls (db (snd (snd (Department_save d w)))) =
         calls (db w) @ [Execute (UPDATE_department (name_d d) i), Commit]))"
    using Department_save_persistent [of d i w] by blast
  have d: "(id_d d = None \<and> Department_save d w = (Inr u, d', w') \<and>
    Department_save (Department name2 (id_d d')) wx = (Inr u2, d2, w2) \<longrightarrow>
      (\<exists>rows. department_tbl (db wx) = Some rows \<and>
         d2 = Department name2 (Some (department_ident (db w))) \<and>
         department_tbl (db w2) =
           Some (map (\<lambda>(j, n). if j = department_ident (db w) then (j, name2) else (j, n)) rows) \<and>
         department_ident (db w2) = department_ident (db wx) \<and>
         calls (db w2) =
           calls (db wx) @ [Execute (UPDATE_department name2 (department_ident (db w))), Commit]))"
    using Department_save_again [of d w u d' w' name2 wx u2 d2 w2] by blast
  have e: "(id_e e = None \<and> Employee_save e v = (Inr x, e', v') \<longrightarrow>
      (\<exists>rows dept_id.
         employee_tbl (db v) = Some rows \<and> id_d (department e) = Some dept_id \<and>
         employee_row_ok (db v) (Some dept_id) (chief_id e) (name_e e) (salary e) \<and>
         e' = Employee (department e) (chief e) (name_e e) (salary e)
                (Some (employee_ident (db v))) \<and>
         v' = v\<lparr>db := (db v)\<lparr>
                employee_tbl := Some (rows @ [(employee_ident (db v), dept_id, chief_id e,
                                                name_e e, salary e)]),
                employee_ident := employee_ident (db v) + 1,
                last_identity := Some (employee_ident (db v)),
                result_rows := [],
                calls := calls (db v) @
                  [Execute (INSERT_employee (Some dept_id) (chief_id e) (name_e e) (salary e)),
                   Execute SELECT_IDENTITY, Fetchone, Commit]\<rparr>\<rparr>))"
    using Employee_save_insert [of e v x e' v'] by blast
  have f: "(id_e e = Some i \<and> Employee_save e v = (Inr x, e', v') \<longrightarrow>
      (\<exists>rows dept_id.
         employee_tbl (db v) = Some rows \<and> id_d (department e) = Some dept_id \<and> e' = e \<and>
         v' = v\<lparr>db := (db v)\<lparr>
                employee_tbl :=
                  Some (map (\<lambda>(j, r). if j = i then (j, dept_id, chief_id e, name_e e, salary e)
                                       else (j, r)) rows),
                calls := calls (db v) @
                  [Execute (UPDATE_employee (Some dept_id) (chief_id e) (name_e e) (salary e) i),
                   Commit]\<rparr>\<rparr>))"
    using Employee_save_update [of e i v x e' v'] by blast
  have g: "(id_e e = Some i \<longrightarrow>
      fst (snd (Employee_save e v)) = e \<and>
      (calls (db (snd (snd (Employee_save e v)))) =
         calls (db v) @ [Execute (UPDATE_employee (id_d (department e)) (chief_id e)
                                    (name_e e) (salary e) i)] \<or>
       calls (db (snd (snd (Employee_save e v)))) =
         calls (db v) @ [Execute (UPDATE_employee (id_d (department e)) (chief_id e)
                                    (name_e e) (salary e) i), Commit]))"
    using Employee_save_persistent [of e i v] by blast
  have h: "(id_e e = None \<and> Employee_save e v = (Inr x, e', v') \<and>
    Employee_save (Employee dept2 chf2 nm2 sal2 (id_e e')) vx = (Inr x2, e2, v2) \<longrightarrow>
      (\<exists>rows dp2. employee_tbl (db vx) = Some rows \<and> id_d dept2 = Some dp2 \<and>
         e2 = Employee dept2 chf2 nm2 sal2 (Some (employee_ident (db v))) \<and>
         employee_tbl (db v2) =
           Some (map (\<lambda>(j, r). if j = employee_ident (db v)
                                then (j, dp2, chief_id e2, nm2, sal2) else (j, r)) rows) \<and>
         employee_ident (db v2) = employee_ident (db vx) \<and>
         calls (db v2) =
           calls (db vx) @
           [Execute (UPDATE_employee (Some dp2) (chief_id e2) nm2 sal2 (employee_ident (db v))),
            Commit]))"
    using Employee_save_again [of e v x e' v' dept2 chf2 nm2 sal2 vx x2 e2 v2] by blast
  from a b c d e f g h show ?thesis by blast
qed

lemma saves_run:
  "sales_saved = (Inr (), Department ''Sales'' (Some 1), snd (snd sales_saved)) \<and>
   retail_saved = (Inr (), Department ''Retail'' (Some 2), snd (snd retail_saved)) \<and>
   sales_resaved = (Inr (), Department ''Shop'' (Some 1), snd (snd sales_resaved)) \<and>
   department_tbl (db (snd (snd sales_resaved))) = Some [(1, ''Shop''), (2, ''Retail'')] \<and>
   calls (db (snd (snd sales_resaved))) =
     calls (db (snd (snd retail_saved))) @ [Execute (UPDATE_department ''Shop'' 1), Commit] \<and>
   cyd_saved =
     (Inr (), Employee sales (Some (staff ! 0)) ''Cyd'' 40000 (Some 3), snd (snd cyd_saved)) \<and>
   dan_saved = (Inr (), Employee sales None ''Dan'' 21000 (Some 4), snd (snd dan_saved)) \<and>
   cyd_resaved =
     (Inr (), Employee sales (Some (staff ! 1)) ''Cyd'' 45000 (Some 3), snd (snd cyd_resaved)) \<and>
   employee_tbl (db (snd (snd cyd_resaved))) =
     Some [(1, 1, None, ''Ann'', 20000), (2, 1, Some 1, ''Bob'', 30000),
           (3, 1, Some 2, ''Cyd'', 45000), (4, 1, None, ''Dan'', 21000)] \<and>
   calls (db (snd (snd cyd_resaved))) =
     calls (db (snd (snd dan_saved))) @
     [Execute (UPDATE_employee (Some 1) (Some 2) ''Cyd'' 45000 3), Commit]"
  by (simp add: sales_saved_def retail_saved_def sales_resaved_def cyd_saved_def dan_saved_def
        cyd_resaved_def staff_world_def staff_def sales_def ready_world_eq run_defs)

theorem save_round_trip_witness:
  "sales_saved = (Inr (), Department ''Sales'' (Some 1), snd (snd sales_saved)) \<and>
   retail_saved = (Inr (), Department ''Retail'' (Some 2), snd (snd retail_saved)) \<and>
   sales_resaved = (Inr (), Department ''Shop'' (Some 1), snd (snd sales_resaved)) \<and>
   department_tbl (db (snd (snd sales_resaved))) = Some [(1, ''Shop''), (2, ''Retail'')] \<and>
   calls (db (snd (snd sales_resaved))) =
     calls (db (snd (snd retail_saved))) @ [Execute (UPDATE_department ''Shop'' 1), Commit] \<and>
   cyd_saved =
     (Inr (), Employee sales (Some (staff ! 0)) ''Cyd'' 40000 (Some 3), snd (snd cyd_saved)) \<and>
   dan_saved = (Inr (), Employee sales None ''Dan'' 21000 (Some 4), snd (snd dan_saved)) \<and>
   cyd_resaved =
     (Inr (), Employee sales (Some (staff ! 1)) ''Cyd'' 45000 (Some 3), snd (snd cyd_resaved)) \<and>
   employee_tbl (db (snd (snd cyd_resaved))) =
     Some [(1, 1, None, ''Ann'', 20000), (2, 1, Some 1, ''Bob'', 30000),
           (3, 1, Some 2, ''Cyd'', 45000), (4, 1, None, ''Dan'', 21000)] \<and>
   calls (db (snd (snd cyd_resaved))) =
     calls (db (snd (snd dan_saved))) @
     [Execute (UPDATE_employee (Some 1) (Some 2) ''Cyd'' 45000 3), Commit] \<and>
   department_ident (db (snd (snd sales_resaved))) = department_ident (db (snd (snd retail_saved))) \<and>
   employee_ident (db (snd (snd cyd_resaved))) = employee_ident (db (snd (snd dan_saved)))"
proof -
  have 1: "id_d (Department ''Sales'' None) = None \<and>
      Department_save (Department ''Sales'' None) ready_world =
        (Inr (), fst (snd sales_saved), snd (snd sales_saved)) \<and>
      Department_save (Department ''Shop'' (id_d (fst (snd sales_saved)))) (snd (snd retail_saved)) =
        (Inr (), fst (snd sales_resaved), snd (snd sales_resaved))"
    unfolding sales_saved_def [symmetric] sales_resaved_def [symmetric]
    using saves_run by (simp add: prod_eq_iff)
  have 2: "id_e (Employee sales (Some (staff ! 0)) ''Cyd'' 40000 None) = None \<and>
      Employee_save (Employee sales (Some (staff ! 0)) ''Cyd'' 40000 None) staff_world =
        (Inr (), fst (snd cyd_saved), snd (snd cyd_saved)) \<and>
      Employee_save (Employee sales (Some (staff ! 1)) ''Cyd'' 45000 (id_e (fst (snd cyd_saved))))
        (snd (snd dan_saved)) = (Inr (), fst (snd cyd_resaved), snd (snd cyd_resaved))"
    unfolding cyd_saved_def [symmetric] cyd_resaved_def [symmetric]
    using saves_run by (simp add: prod_eq_iff)
  note t = save_round_trip [where d = "Department ''Sales'' None" and w = ready_world
      and u = "()" and d' = "fst (snd sales_saved)" and w' = "snd (snd sales_saved)"
      and ?name2.0 = "''Shop''" and wx = "snd (snd retail_saved)" and ?u2.0 = "()"
      and ?d2.0 = "fst (snd sales_resaved)" and ?w2.0 = "snd (snd sales_resaved)"
      and e = "Employee sales (Some (staff ! 0)) ''Cyd'' 40000 None" and v = staff_world
      and x = "()" and e' = "fst (snd cyd_saved)" and v' = "snd (snd cyd_saved)"
      and ?dept2.0 = sales and ?chf2.0 = "Some (staff ! 1)" and ?nm2.0 = "''Cyd''"
      and ?sal2.0 = 45000 and vx = "snd (snd dan_saved)" and ?x2.0 = "()"
      and ?e2.0 = "fst (snd cyd_resaved)" and ?v2.0 = "snd (snd cyd_resaved)"]
  from t 1 have a: "department_ident (db (snd (snd sales_resaved))) =
      department_ident (db (snd (snd retail_saved)))" by blast
  from t 2 have b: "employee_ident (db (snd (snd cyd_resaved))) =
      employee_ident (db (snd (snd dan_saved)))" by blast
  from saves_run a b show ?thesis by blast
qed

section \<open>The hierarchy of chiefs\<close>

lemma get_random_employees_hierarchy:
  assumes "get_random_employees amount departments w = (Inr es, w')"
  shows "\<forall>k<length es.
           id_e (es ! k) = Some (employee_ident (db w) + int k) \<and>
           (chief (es ! k) = None \<or> (\<exists>j<k. chief (es ! k) = Some (es ! j))) \<and>
           (chief_id (es ! k) = None \<or>
            (\<exists>j<k. chief_id (es ! k) = Some (employee_ident (db w) + int j))) \<and>
           chief (es ! k) \<noteq> Some (es ! k) \<and> chief_id (es ! k) \<noteq> id_e (es ! k)"
proof (intro allI impI)
  fix k assume k: "k < length es"
  from get_random_employees_state [OF assms]
  have ids: "\<forall>j<length es. id_e (es ! j) = Some (employee_ident (db w) + int j)" by blast
  with k have i: "id_e (es ! k) = Some (employee_ident (db w) + int k)" by blast
  from get_random_employees_chiefs [OF assms] k obtain pos where
    r: "- 1 \<le> pos" "pos \<le> int k - 1" and
    c: "chief (es ! k) = (if pos = - 1 then None else Some (es ! nat pos))" by blast
  have a: "chief (es ! k) = None \<or> (\<exists>j<k. chief (es ! k) = Some (es ! j))"
  proof (cases "pos = - 1")
    case True
    with c show ?thesis by simp
  next
    case False
    with r have "nat pos < k" by linarith
    with c False show ?thesis by auto
  qed
  have b: "chief_id (es ! k) = None \<or>
      (\<exists>j<k. chief_id (es ! k) = Some (employee_ident (db w) + int j))"
  proof (cases "chief (es ! k)")
    case None
    then show ?thesis by (simp add: chief_id_def)
  next
    case (Some c)
    with a obtain j where j: "j < k" "c = es ! j" by auto
    with k ids have "id_e c = Some (employee_ident (db w) + int j)" by simp
    with Some j show ?thesis by (auto simp: chief_id_def)
  qed
  from b i have d: "chief_id (es ! k) \<noteq> id_e (es ! k)" by auto
  have e: "chief (es ! k) \<noteq> Some (es ! k)"
  proof
    assume "chief (es ! k) = Some (es ! k)"
    then have "chief_id (es ! k) = id_e (es ! k)" by (simp add: chief_id_def)
    with d show False by simp
  qed
  from i a b d e show "id_e (es ! k) = Some (employee_ident (db w) + int k) \<and>
           (chief (es ! k) = None \<or> (\<exists>j<k. chief (es ! k) = Some (es ! j))) \<and>
           (chief_id (es ! k) = None \<or>
            (\<exists>j<k. chief_id (es ! k) = Some (employee_ident (db w) + int j))) \<and>
           chief (es ! k) \<noteq> Some (es ! k) \<and> chief_id (es ! k) \<noteq> id_e (es ! k)"
    by blast
qed

lemma get_random_employees_acyclic:
  assumes "get_random_employees amount departments w = (Inr es, w')"
  shows "acyclic {(i, c). \<exists>e\<in>set es. id_e e = Some i \<and> chief_id e = Some c}"
proof (rule acyclicI_order [where f = "\<lambda>i. i"])
  fix i c
  assume "(i, c) \<in> {(i, c). \<exists>e\<in>set es. id_e e = Some i \<and> chief_id e = Some c}"
  then obtain e where e: "e \<in> set es" "id_e e = Some i" "chief_id e = Some c" by blast
  then obtain k where k: "k < length es" "e = es ! k" by (auto simp: in_set_conv_nth)
  from get_random_employees_hierarchy [OF assms] k(1)
  have h: "id_e (es ! k) = Some (employee_ident (db w) + int k)"
    "chief_id (es ! k) = None \<or>
      (\<exists>j<k. chief_id (es ! k) = Some (employee_ident (db w) + int j))" by blast+
  from h(1) k e have "i = employee_ident (db w) + int k" by simp
  moreover from h(2) k e obtain j where "j < k" "c = employee_ident (db w) + int j" by auto
  ultimately show "c < i" by simp
qed

text \<open>
  C1: the generator returns as many employees as it was asked for, and creates them
  one after the other: the \<open>k\<close>-th employee of the list gets the \<open>k\<close>-th id that the
  database assigns from its identity counter. The chief of an employee is none or an
  employee found earlier in the list, created before it, whose id is therefore smaller:
  no employee is its own chief, as an object or by id, and the relation from the id of
  an employee to the id of its chief has no cycle. The rows that the run adds to the
  employee table are the rows of these employees, in this order, with these ids and
  chief ids.
\<close>

theorem chief_hierarchy:
  "get_random_employees amount departments w = (Inr es, w') \<longrightarrow>
     length es = (if departments = [] then 0 else nat amount) \<and>
     (\<forall>k<length es.
        id_e (es ! k) = Some (employee_ident (db w) + int k) \<and>
        (chief (es ! k) = None \<or> (\<exists>j<k. chief (es ! k) = Some (es ! j))) \<and>
        (chief_id (es ! k) = None \<or>
         (\<exists>j<k. chief_id (es ! k) = Some (employee_ident (db w) + int j))) \<and>
        chief (es ! k) \<noteq> Some (es ! k) \<and> chief_id (es ! k) \<noteq> id_e (es ! k)) \<and>
     acyclic {(i, c). \<exists>e\<in>set es. id_e e = Some i \<and> chief_id e = Some c} \<and>
     employee_tbl (db w') =
       (if es = [] then employee_tbl (db w)
        else Some (the (employee_tbl (db w)) @
                   map (\<lambda>e. (the (id_e e), the (id_d (department e)), chief_id e,
                              name_e e, salary e)) es))"
  using get_random_employees_length [of amount departments w es w']
    get_random_employees_hierarchy [of amount departments w es w']
    get_random_employees_acyclic [of amount departments w es w']
    get_random_employees_log [of amount departments w es w']
  by blast

theorem chief_hierarchy_witness:
  "fst staff_run =
     Inr [Employee sales None ''Name x'' 20001 (Some 3),
          Employee sales (Some (Employee sales None ''Name x'' 20001 (Some 3)))
            ''Name xx'' 20004 (Some 4)] \<and>
   length (projr (fst staff_run)) = 2 \<and>
   map id_e (projr (fst staff_run)) = [Some 3, Some 4] \<and>
   map chief_id (projr (fst staff_run)) = [None, Some 3] \<and>
   chief (projr (fst staff_run) ! 1) = Some (projr (fst staff_run) ! 0) \<and>
   employee_tbl (db (snd staff_run)) =
     Some [(1, 1, None, ''Ann'', 20000), (2, 1, Some 1, ''Bob'', 30000),
           (3, 1, None, ''Name x'', 20001), (4, 1, Some 3, ''Name xx'', 20004)]"
proof -
  have h: "get_random_employees 2 [sales] (staff_world\<lparr>random_src := (\<lambda>n. n)\<rparr>) =
             (Inr (projr (fst staff_run)), snd staff_run)"
    using staff_run_eq by (simp add: staff_run_def prod_eq_iff)
  note t = chief_hierarchy [where amount = 2 and departments = "[sales]"
      and w = "staff_world\<lparr>random_src := (\<lambda>n. n)\<rparr>"
      and es = "projr (fst staff_run)" and w' = "snd staff_run", THEN mp, OF h]
  from t have l: "length (projr (fst staff_run)) = 2" by simp
  from t have "employee_tbl (db (snd staff_run)) =
       (if projr (fst staff_run) = [] then employee_tbl (db (staff_world\<lparr>random_src := (\<lambda>n. n)\<rparr>))
        else Some (the (employee_tbl (db (staff_world\<lparr>random_src := (\<lambda>n. n)\<rparr>))) @
                   map (\<lambda>e. (the (id_e e), the (id_d (department e)), chief_id e,
                              name_e e, salary e)) (projr (fst staff_run))))" by blast
  then have tbl: "employee_tbl (db (snd staff_run)) =
     Some [(1, 1, None, ''Ann'', 20000), (2, 1, Some 1, ''Bob'', 30000),
           (3, 1, None, ''Name x'', 20001), (4, 1, Some 3, ''Name xx'', 20004)]"
    by (simp add: staff_run_eq staff_world_def ready_world_eq sales_def chief_id_def)
  have m: "map id_e (projr (fst staff_run)) = [Some 3, Some 4] \<and>
     map chief_id (projr (fst staff_run)) = [None, Some 3] \<and>
     chief (projr (fst staff_run) ! 1) = Some (projr (fst staff_run) ! 0)"
    by (simp add: staff_run_eq chief_id_def)
  from staff_run_eq l m tbl show ?thesis by blast
qed

section \<open>The department of an employee\<close>

lemma create_fake_data_cases:
  assumes "create_fake_data departments_amount employees_amount w = (Inr (ds, es), w')"
  shows "\<exists>w1. departments_loop (nat departments_amount) [] w = (Inr ds, w1) \<and>
              get_random_employees employees_amount ds w1 = (Inr es, w')"
  using assms
  by (auto simp: create_fake_data_def get_random_departments_def split: prod.splits sum.splits)

lemma create_fake_data_run:
  assumes "create_fake_data departments_amount employees_amount w = (Inr (ds, es), w')"
  shows "length ds = nat departments_amount \<and>
         length es = (if ds = [] then 0 else nat employees_amount) \<and>
         (\<forall>k<length ds.
            ds ! k =
              Department
                (shorten (the (provider (fake w)
                   (history (fake w) @ replicate (Suc k) Unique_catch_phrase))))
                (Some (department_ident (db w) + int k))) \<and>
         (\<forall>k<length es.
            department (es ! k) \<in> set ds \<and> id_d (department (es ! k)) \<noteq> None \<and>
            id_e (es ! k) = Some (employee_ident (db w) + int k) \<and>
            name_e (es ! k) =
              shorten (the (provider (fake w)
                (history (fake w) @ replicate (length ds) Unique_catch_phrase @
                 replicate (Suc k) Unique_name)))) \<and>
         calls (db w') = calls (db w) @
           concat (map (\<lambda>d. [Execute (INSERT_department (name_d d)), Execute SELECT_IDENTITY,
                              Fetchone, Commit]) ds) @
           concat (map (\<lambda>e. [Execute (INSERT_employee (id_d (department e)) (chief_id e)
                                        (name_e e) (salary e)),
                              Execute SELECT_IDENTITY, Fetchone, Commit]) es)"
proof -
  from create_fake_data_cases [OF assms] obtain w1 where
    d: "departments_loop (nat departments_amount) [] w = (Inr ds, w1)" and
    e: "get_random_employees employees_amount ds w1 = (Inr es, w')" by blast
  note dr = departments_loop_run [OF d]
  note es = get_random_employees_state [OF e]
  note el = get_random_employees_log [OF e]
  from dr have f1: "fake w1 =
      (fake w)\<lparr>history := history (fake w) @ replicate (length ds) Unique_catch_phrase\<rparr>"
    and i1: "employee_ident (db w1) = employee_ident (db w)"
    and c1: "calls (db w1) = calls (db w) @
           concat (map (\<lambda>d. [Execute (INSERT_department (name_d d)), Execute SELECT_IDENTITY,
                              Fetchone, Commit]) ds)"
    and l1: "length ds = nat departments_amount"
    and n1: "\<forall>k<length ds.
            ds ! k =
              Department
                (shorten (the (provider (fake w)
                   (history (fake w) @ replicate (Suc k) Unique_catch_phrase))))
                (Some (department_ident (db w) + int k))"
    by blast+
  from get_random_employees_length [OF e]
  have l2: "length es = (if ds = [] then 0 else nat employees_amount)" .
  have n2: "\<forall>k<length es.
            department (es ! k) \<in> set ds \<and> id_d (department (es ! k)) \<noteq> None \<and>
            id_e (es ! k) = Some (employee_ident (db w) + int k) \<and>
            name_e (es ! k) =
              shorten (the (provider (fake w)
                (history (fake w) @ replicate (length ds) Unique_catch_phrase @
                 replicate (Suc k) Unique_name)))"
  proof (intro allI impI)
    fix k assume "k < length es"
    with es have "id_e (es ! k) = Some (employee_ident (db w1) + int k)"
      and "name_e (es ! k) =
        shorten (the (provider (fake w1) (history (fake w1) @ replicate (Suc k) Unique_name)))"
      and "department (es ! k) \<in> set ds" and "id_d (department (es ! k)) \<noteq> None" by blast+
    then show "department (es ! k) \<in> set ds \<and> id_d (department (es ! k)) \<noteq> None \<and>
            id_e (es ! k) = Some (employee_ident (db w) + int k) \<and>
            name_e (es ! k) =
              shorten (the (provider (fake w)
                (history (fake w) @ replicate (length ds) Unique_catch_phrase @
                 replicate (Suc k) Unique_name)))"
      unfolding f1 i1 by simp
  qed
  from el c1 have c2: "calls (db w') = calls (db w) @
           concat (map (\<lambda>d. [Execute (INSERT_department (name_d d)), Execute SELECT_IDENTITY,
                              Fetchone, Commit]) ds) @
           concat (map (\<lambda>e. [Execute (INSERT_employee (id_d (department e)) (chief_id e)
                                        (name_e e) (salary e)),
                              Execute SELECT_IDENTITY, Fetchone, Commit]) es)" by simp
  from l1 l2 n1 n2 c2 show ?thesis by blast
qed

lemma get_random_employees_departments:
  assumes "get_random_employees amount departments w = (Inr es, w')"
  shows "\<forall>k<length es.
           department (es ! k) =
             departments ! (random_src w (random_pos w + (if k = 0 then 0 else 3 * k - 1))
                             mod length departments) \<and>
           department (es ! k) \<in> set departments \<and>
           (\<exists>i. id_d (department (es ! k)) = Some i)"
  using get_random_employees_draws [OF assms] get_random_employees_state [OF assms] by auto

lemma small_run_eq:
  "fst small_run =
     Inr ([Department ''Phrase x'' (Some 1)],
          [Employee (Department ''Phrase x'' (Some 1)) None ''Name xx'' 20001 (Some 1)])"
  by (simp add: small_run_def ready_world_eq run_defs example_library_def shorten_examples)

text \<open>
  C6: the generator returns as many employees as it was asked for, and the department
  of each is the element of the list of departments it was given that the department
  draw of that employee selects (draw number \<open>3 * k - 1\<close> of the call, the first one for
  \<open>k = 0\<close>, modulo the length of the list); this department has an id, and the
  \<open>INSERT\<close> that stores the employee carries that id. In \<open>create_fake_data\<close> the list
  is the one that the department generator has just returned: its departments were
  stored, and got their ids from the database, before the first employee is stored,
  as the log of the calls to the database shows.
\<close>

theorem employee_department:
  "(get_random_employees amount departments w = (Inr es, w') \<longrightarrow>
      length es = (if departments = [] then 0 else nat amount) \<and>
      (\<forall>k<length es.
         department (es ! k) =
           departments ! (random_src w (random_pos w + (if k = 0 then 0 else 3 * k - 1))
                           mod length departments) \<and>
         department (es ! k) \<in> set departments \<and>
         (\<exists>i. id_d (department (es ! k)) = Some i)) \<and>
      calls (db w') = calls (db w) @
        concat (map (\<lambda>e. [Execute (INSERT_employee (id_d (department e)) (chief_id e)
                                     (name_e e) (salary e)),
                           Execute SELECT_IDENTITY, Fetchone, Commit]) es)) \<and>
   (create_fake_data departments_amount employees_amount v = (Inr (ds, xs), v') \<longrightarrow>
      length ds = nat departments_amount \<and>
      length xs = (if ds = [] then 0 else nat employees_amount) \<and>
      (\<forall>k<length ds. id_d (ds ! k) = Some (department_ident (db v) + int k)) \<and>
      (\<forall>k<length xs. department (xs ! k) \<in> set ds \<and> id_d (department (xs ! k)) \<noteq> None) \<and>
      calls (db v') = calls (db v) @
        concat (map (\<lambda>d. [Execute (INSERT_department (name_d d)), Execute SELECT_IDENTITY,
                           Fetchone, Commit]) ds) @
        concat (map (\<lambda>e. [Execute (INSERT_employee (id_d (department e)) (chief_id e)
                                     (name_e e) (salary e)),
                           Execute SELECT_IDENTITY, Fetchone, Commit]) xs))"
proof -
  have a: "get_random_employees amount departments w = (Inr es, w') \<longrightarrow>
      length es = (if departments = [] then 0 else nat amount) \<and>
      (\<forall>k<length es.
         department (es ! k) =
           departments ! (random_src w (random_pos w + (if k = 0 then 0 else 3 * k - 1))
                           mod length departments) \<and>
         department (es ! k) \<in> set departments \<and>
         (\<exists>i. id_d (department (es ! k)) = Some i)) \<and>
      calls (db w') = calls (db w) @
        concat (map (\<lambda>e. [Execute (INSERT_employee (id_d (department e)) (chief_id e)
                                     (name_e e) (salary e)),
                           Execute SELECT_IDENTITY, Fetchone, Commit]) es)"
    using get_random_employees_length [of amount departments w es w']
      get_random_employees_departments [of amount departments w es w']
      get_random_employees_log [of amount departments w es w']
    by blast
  have b: "create_fake_data departments_amount employees_amount v = (Inr (ds, xs), v') \<longrightarrow>
      length ds = nat departments_amount \<and>
      length xs = (if ds = [] then 0 else nat employees_amount) \<and>
      (\<forall>k<length ds. id_d (ds ! k) = Some (department_ident (db v) + int k)) \<and>
      (\<forall>k<length xs. department (xs ! k) \<in> set ds \<and> id_d (department (xs ! k)) \<noteq> None) \<and>
      calls (db v') = calls (db v) @
        concat (map (\<lambda>d. [Execute (INSERT_department (name_d d)), Execute SELECT_IDENTITY,
                           Fetchone, Commit]) ds) @
        concat (map (\<lambda>e. [Execute (INSERT_employee (id_d (department e)) (chief_id e)
                                     (name_e e) (salary e)),
                           Execute SELECT_IDENTITY, Fetchone, Commit]) xs)"
  proof
    assume r: "create_fake_data departments_amount employees_amount v = (Inr (ds, xs), v')"
    note c = create_fake_data_run [OF r]
    from c have "\<forall>k<length ds. ds ! k =
              Department
                (shorten (the (provider (fake v)
                   (history (fake v) @ replicate (Suc k) Unique_catch_phrase))))
                (Some (department_ident (db v) + int k))" by blast
    then have i: "\<forall>k<length ds. id_d (ds ! k) = Some (department_ident (db v) + int k)"
      by simp
    from c i show "length ds = nat departments_amount \<and>
      length xs = (if ds = [] then 0 else nat employees_amount) \<and>
      (\<forall>k<length ds. id_d (ds ! k) = Some (department_ident (db v) + int k)) \<and>
      (\<forall>k<length xs. department (xs ! k) \<in> set ds \<and> id_d (department (xs ! k)) \<noteq> None) \<and>
      calls (db v') = calls (db v) @
        concat (map (\<lambda>d. [Execute (INSERT_department (name_d d)), Execute SELECT_IDENTITY,
                           Fetchone, Commit]) ds) @
        concat (map (\<lambda>e. [Execute (INSERT_employee (id_d (department e)) (chief_id e)
                                     (name_e e) (salary e)),
                           Execute SELECT_IDENTITY, Fetchone, Commit]) xs)"
      by blast
  qed
  from a b show ?thesis by blast
qed

theorem employee_department_witness:
  "fst small_run =
     Inr ([Department ''Phrase x'' (Some 1)],
          [Employee (Department ''Phrase x'' (Some 1)) None ''Name xx'' 20001 (Some 1)]) \<and>
   calls (db (snd small_run)) =
     calls (db ready_world) @
     [Execute (INSERT_department ''Phrase x''), Execute SELECT_IDENTITY, Fetchone, Commit,
      Execute (INSERT_employee (Some 1) None ''Name xx'' 20001), Execute SELECT_IDENTITY,
      Fetchone, Commit] \<and>
   fst staff_run =
     Inr [Employee sales None ''Name x'' 20001 (Some 3),
          Employee sales (Some (Employee sales None ''Name x'' 20001 (Some 3)))
            ''Name xx'' 20004 (Some 4)] \<and>
   calls (db (snd staff_run)) =
     calls (db staff_world) @
     [Execute (INSERT_employee (Some 1) None ''Name x'' 20001), Execute SELECT_IDENTITY,
      Fetchone, Commit,
      Execute (INSERT_employee (Some 1) (Some 3) ''Name xx'' 20004), Execute SELECT_IDENTITY,
      Fetchone, Commit]"
proof -
  have h1: "create_fake_data 1 1 ready_world =
      (Inr (fst (projr (fst small_run)), snd (projr (fst small_run))), snd small_run)"
    using small_run_eq by (simp add: small_run_def prod_eq_iff)
  have h2: "get_random_employees 2 [sales] (staff_world\<lparr>random_src := (\<lambda>n. n)\<rparr>) =
             (Inr (projr (fst staff_run)), snd staff_run)"
    using staff_run_eq by (simp add: staff_run_def prod_eq_iff)
  note t = employee_department [where departments_amount = 1 and employees_amount = 1
      and v = ready_world and ds = "fst (projr (fst small_run))"
      and xs = "snd (projr (fst small_run))" and v' = "snd small_run"
      and amount = 2 and departments = "[sales]"
      and w = "staff_world\<lparr>random_src := (\<lambda>n. n)\<rparr>"
      and es = "projr (fst staff_run)" and w' = "snd staff_run"]
  from t h1 have "calls (db (snd small_run)) = calls (db ready_world) @
        concat (map (\<lambda>d. [Execute (INSERT_department (name_d d)), Execute SELECT_IDENTITY,
                           Fetchone, Commit]) (fst (projr (fst small_run)))) @
        concat (map (\<lambda>e. [Execute (INSERT_employee (id_d (department e)) (chief_id e)
                                     (name_e e) (salary e)),
                           Execute SELECT_IDENTITY, Fetchone, Commit])
                    (snd (projr (fst small_run))))" by blast
  then have c1: "calls (db (snd small_run)) =
     calls (db ready_world) @
     [Execute (INSERT_department ''Phrase x''), Execute SELECT_IDENTITY, Fetchone, Commit,
      Execute (INSERT_employee (Some 1) None ''Name xx'' 20001), Execute SELECT_IDENTITY,
      Fetchone, Commit]"
    by (simp add: small_run_eq chief_id_def)
  from t h2 have "calls (db (snd staff_run)) =
        calls (db (staff_world\<lparr>random_src := (\<lambda>n. n)\<rparr>)) @
        concat (map (\<lambda>e. [Execute (INSERT_employee (id_d (department e)) (chief_id e)
                                     (name_e e) (salary e)),
                           Execute SELECT_IDENTITY, Fetchone, Commit])
                    (projr (fst staff_run)))" by blast
  then have c2: "calls (db (snd staff_run)) =
     calls (db staff_world) @
     [Execute (INSERT_employee (Some 1) None ''Name x'' 20001), Execute SELECT_IDENTITY,
      Fetchone, Commit,
      Execute (INSERT_employee (Some 1) (Some 3) ''Name xx'' 20004), Execute SELECT_IDENTITY,
      Fetchone, Commit]"
    by (simp add: staff_run_eq chief_id_def sales_def)
  from small_run_eq staff_run_eq c1 c2 show ?thesis by blast
qed

end
